theory Spec2Isabelle
  imports Main "HOL-Library.Char_ord" "HOL-Library.List_Lexorder" "HOL-Library.Sublist"
    "HOL-Library.Multiset"
begin

section \<open>The memory API of k3ss-IDE (backend/memory\_api.py)\<close>

text \<open>
  The module serves four handlers, \<open>write_memory\<close>, \<open>read_memory\<close>, \<open>query_memory\<close> and
  \<open>purge_memory\<close>, over two stores: Redis streams (primary) and one SQLite table
  (secondary). The handlers are embedded as functions from an environment and a world
  (the contents of both stores) to a result and the new world. Every \<^verbatim>\<open>raise\<close> of the
  source is a value \<open>Inl e\<close>; every \<^verbatim>\<open>try\<close>/\<^verbatim>\<open>except\<close> is a case distinction on it.
\<close>

subsection \<open>Python values\<close>

text \<open>
  The payloads are \<^verbatim>\<open>Dict[str, Any]\<close> parsed from JSON. A dict is an association list
  (looked up with \<open>map_of\<close>); \<open>JNull\<close> is Python's \<^verbatim>\<open>None\<close>. Floats are not part of the
  model.
\<close>

datatype json =
    JNull
  | JBool bool
  | JInt int
  | JStr string
  | JList "json list"
  | JDict "(string \<times> json) list"

text \<open>
  Exceptions. \<^verbatim>\<open>redis.RedisError\<close> and \<^verbatim>\<open>fastapi.HTTPException\<close> are both subclasses of
  \<^verbatim>\<open>Exception\<close>; \<open>PyError\<close> stands for every other exception (\<^verbatim>\<open>TypeError\<close>,
  \<^verbatim>\<open>json.JSONDecodeError\<close>, \<^verbatim>\<open>apsw.Error\<close>, ...). An \<open>HTTPException\<close> carries its status
  code and the \<^verbatim>\<open>"error"\<close> text of its detail.
\<close>

datatype pyexc = RedisError | HTTPException nat string | PyError

text \<open>Truthiness of a dict, of a string and of an optional string.\<close>

definition dict_truthy :: "(string \<times> json) list \<Rightarrow> bool" where
  "dict_truthy d = (d \<noteq> [])"

definition str_truthy :: "string option \<Rightarrow> bool" where
  "str_truthy s = (case s of None \<Rightarrow> False | Some t \<Rightarrow> t \<noteq> [])"


text \<open>\<^verbatim>\<open>d.get(k, default)\<close> on a dict of strings (the fields of a stream entry).\<close>

definition dict_get :: "(string \<times> string) list \<Rightarrow> string \<Rightarrow> string \<Rightarrow> string" where
  "dict_get d k dflt = (case map_of d k of None \<Rightarrow> dflt | Some v \<Rightarrow> v)"

text \<open>
  A Python string is a list of characters, a \<open>char\<close> being a code point below 256
  (ASCII and Latin-1); code points from 256 on are outside the type.

  \<^verbatim>\<open>str.isalnum()\<close>: at least one character, and every character is a letter, a decimal, a
  digit or numeric in the Unicode database. Below 256 these are the ASCII letters and
  digits, the ordinal indicators \<^verbatim>\<open>U+00AA\<close> and \<^verbatim>\<open>U+00BA\<close>, the micro sign \<^verbatim>\<open>U+00B5\<close>, the
  superscript digits \<^verbatim>\<open>U+00B2\<close>, \<^verbatim>\<open>U+00B3\<close>, \<^verbatim>\<open>U+00B9\<close>, the fractions \<^verbatim>\<open>U+00BC\<close> to
  \<^verbatim>\<open>U+00BE\<close>, and the letters \<^verbatim>\<open>U+00C0\<close> to \<^verbatim>\<open>U+00FF\<close> without the two operators
  \<^verbatim>\<open>U+00D7\<close> and \<^verbatim>\<open>U+00F7\<close>.
\<close>

definition isalnum_char :: "char \<Rightarrow> bool" where
  "isalnum_char c =
     ((CHR ''0'' \<le> c \<and> c \<le> CHR ''9'') \<or> (CHR ''A'' \<le> c \<and> c \<le> CHR ''Z'')
      \<or> (CHR ''a'' \<le> c \<and> c \<le> CHR ''z'')
      \<or> c \<in> set [CHR 0xAA, CHR 0xB2, CHR 0xB3, CHR 0xB5, CHR 0xB9, CHR 0xBA,
                    CHR 0xBC, CHR 0xBD, CHR 0xBE]
      \<or> (CHR 0xC0 \<le> c \<and> c \<le> CHR 0xD6) \<or> (CHR 0xD8 \<le> c \<and> c \<le> CHR 0xF6)
      \<or> (CHR 0xF8 \<le> c \<and> c \<le> CHR 0xFF))"

definition isalnum :: "string \<Rightarrow> bool" where
  "isalnum s = (s \<noteq> [] \<and> list_all isalnum_char s)"

text \<open>The test \<^verbatim>\<open>not project or not project.isalnum()\<close> of every handler, negated.\<close>

definition valid_project :: "string \<Rightarrow> bool" where
  "valid_project project = (\<not> (project = [] \<or> \<not> isalnum project))"




text \<open>
  Python's \<^verbatim>\<open>==\<close> on JSON values: \<^verbatim>\<open>True == 1\<close> and \<^verbatim>\<open>False == 0\<close> hold, lists are compared
  element by element, dicts have equal length and every key of the left one is bound to
  an equal value in the right one.
\<close>

function py_eq :: "json \<Rightarrow> json \<Rightarrow> bool"
  and py_eq_list :: "json list \<Rightarrow> json list \<Rightarrow> bool"
  and py_dict_le :: "(string \<times> json) list \<Rightarrow> (string \<times> json) list \<Rightarrow> bool"
where
  "py_eq JNull b = (b = JNull)"
| "py_eq (JBool x) b =
     (case b of JBool y \<Rightarrow> x = y | JInt j \<Rightarrow> (if x then 1 else 0) = j | _ \<Rightarrow> False)"
| "py_eq (JInt i) b =
     (case b of JInt j \<Rightarrow> i = j | JBool y \<Rightarrow> i = (if y then 1 else 0) | _ \<Rightarrow> False)"
| "py_eq (JStr s) b = (b = JStr s)"
| "py_eq (JList xs) b = (case b of JList ys \<Rightarrow> py_eq_list xs ys | _ \<Rightarrow> False)"
| "py_eq (JDict d) b =
     (case b of JDict e \<Rightarrow> length d = length e \<and> py_dict_le d e | _ \<Rightarrow> False)"
| "py_eq_list [] ys = (ys = [])"
| "py_eq_list (x # xs) ys =
     (case ys of [] \<Rightarrow> False | y # ys' \<Rightarrow> py_eq x y \<and> py_eq_list xs ys')"
| "py_dict_le [] e = True"
| "py_dict_le (kv # d) e =
     ((case map_of e (fst kv) of None \<Rightarrow> False | Some w \<Rightarrow> py_eq (snd kv) w)
      \<and> py_dict_le d e)"
  by pat_completeness auto
termination
  by (relation "measure (\<lambda>x. case x of
        Inl (a, b) \<Rightarrow> 2 * size a
      | Inr (Inl (xs, ys)) \<Rightarrow> 2 * size_list size xs + 1
      | Inr (Inr (d, e)) \<Rightarrow> 2 * size_list (size_prod (\<lambda>_. 0) size) d + 1)")
     (auto simp: less_Suc_eq_le)



text \<open>
  The slice \<^verbatim>\<open>xs[i:j]\<close>: a negative bound counts from the end, and both bounds are clamped
  to the list.
\<close>

definition py_slice :: "'a list \<Rightarrow> int \<Rightarrow> int \<Rightarrow> 'a list" where
  "py_slice xs i j =
     (let n = int (length xs);
          lo = (if i < 0 then max (i + n) 0 else min i n);
          hi = (if j < 0 then max (j + n) 0 else min j n)
      in take (nat (hi - lo)) (drop (nat lo) xs))"

text \<open>\<^verbatim>\<open>str(n)\<close> for a row id.\<close>

fun str_of_nat :: "nat \<Rightarrow> string" where
  "str_of_nat n =
     (if n < 10 then [char_of (48 + n)]
      else str_of_nat (n div 10) @ [char_of (48 + n mod 10)])"

declare str_of_nat.simps [simp del]

text \<open>The body of a \<^verbatim>\<open>for\<close> loop that appends one formatted element per iteration.\<close>

fun for_each :: "('a \<Rightarrow> pyexc + 'b) \<Rightarrow> 'a list \<Rightarrow> pyexc + 'b list" where
  "for_each f [] = Inr []"
| "for_each f (x # xs) =
     (case f x of
        Inl e \<Rightarrow> Inl e
      | Inr y \<Rightarrow> (case for_each f xs of Inl e \<Rightarrow> Inl e | Inr ys \<Rightarrow> Inr (y # ys)))"

subsection \<open>The environment of one request\<close>

datatype redis_cmd = XADD | EXISTS | XLEN | XRANGE | DEL

datatype sqlite_cmd = CONNECT | INSERT | SELECT | COUNT | DELETE

datatype store_op = Redis redis_cmd string | Sqlite sqlite_cmd

text \<open>
  What a handler takes from outside the module during one request: the clock, the
  \<^verbatim>\<open>json\<close> library, \<^verbatim>\<open>str()\<close> of a JSON value, the id the stream assigns to the next entry
  and its native comparison of an entry id with a range bound, and which store commands
  raise during this request.
\<close>

record env =
  now :: string
  json_dumps :: "json \<Rightarrow> string"
  json_loads :: "string \<Rightarrow> json option"
  py_str :: "json \<Rightarrow> string"
  redis_new_id :: string
  redis_id_ge :: "string \<Rightarrow> string \<Rightarrow> bool"
  redis_id_le :: "string \<Rightarrow> string \<Rightarrow> bool"
  redis_fails :: "redis_cmd \<Rightarrow> bool"
  sqlite_fails :: "sqlite_cmd \<Rightarrow> bool"

subsection \<open>The two stores\<close>

type_synonym entry = "string \<times> (string \<times> string) list"

record row =
  row_id :: nat
  row_project :: string
  row_timestamp :: string
  row_data :: string
  row_metadata :: "string option"

text \<open>
  \<open>redis\<close> maps a key to its stream, oldest entry first; \<open>sqlite\<close> is the table \<^verbatim>\<open>memory\<close>
  in insertion order and \<open>sqlite_seq\<close> the last id given by \<^verbatim>\<open>AUTOINCREMENT\<close>; \<open>trace\<close>
  records every command sent to a store.
\<close>

record world =
  redis :: "string \<Rightarrow> entry list option"
  sqlite :: "row list"
  sqlite_seq :: nat
  trace :: "store_op list"

definition emit :: "store_op \<Rightarrow> world \<Rightarrow> world" where
  "emit op st = st\<lparr>trace := trace st @ [op]\<rparr>"

definition stream_key :: "string \<Rightarrow> string" where
  "stream_key project = ''project:'' @ project"

definition stream_of :: "world \<Rightarrow> string \<Rightarrow> entry list" where
  "stream_of st key = (case redis st key of None \<Rightarrow> [] | Some es \<Rightarrow> es)"

text \<open>The Redis commands the module uses.\<close>

definition redis_xadd ::
  "env \<Rightarrow> world \<Rightarrow> string \<Rightarrow> (string \<times> string) list \<Rightarrow> (pyexc + string) \<times> world" where
  "redis_xadd env st key flds =
     (let st1 = emit (Redis XADD key) st in
      if redis_fails env XADD then (Inl RedisError, st1)
      else (Inr (redis_new_id env),
            st1\<lparr>redis := (redis st1)(key \<mapsto> stream_of st1 key @ [(redis_new_id env, flds)])\<rparr>))"

definition redis_exists :: "env \<Rightarrow> world \<Rightarrow> string \<Rightarrow> (pyexc + bool) \<times> world" where
  "redis_exists env st key =
     (let st1 = emit (Redis EXISTS key) st in
      if redis_fails env EXISTS then (Inl RedisError, st1)
      else (Inr (redis st1 key \<noteq> None), st1))"

definition redis_xlen :: "env \<Rightarrow> world \<Rightarrow> string \<Rightarrow> (pyexc + int) \<times> world" where
  "redis_xlen env st key =
     (let st1 = emit (Redis XLEN key) st in
      if redis_fails env XLEN then (Inl RedisError, st1)
      else (Inr (int (length (stream_of st1 key))), st1))"

text \<open>
  \<^verbatim>\<open>XRANGE key start end\<close> returns the entries whose id lies between the bounds, in stream
  order; \<^verbatim>\<open>-\<close> and \<^verbatim>\<open>+\<close> are the least and the greatest id.
\<close>

definition id_in_range :: "env \<Rightarrow> string \<Rightarrow> string \<Rightarrow> string \<Rightarrow> bool" where
  "id_in_range env start stop i =
     ((start = ''-'' \<or> redis_id_ge env i start) \<and> (stop = ''+'' \<or> redis_id_le env i stop))"

definition redis_xrange ::
  "env \<Rightarrow> world \<Rightarrow> string \<Rightarrow> string \<Rightarrow> string \<Rightarrow> (pyexc + entry list) \<times> world" where
  "redis_xrange env st key start stop =
     (let st1 = emit (Redis XRANGE key) st in
      if redis_fails env XRANGE then (Inl RedisError, st1)
      else (Inr (filter (\<lambda>e. id_in_range env start stop (fst e)) (stream_of st1 key)), st1))"

definition redis_delete :: "env \<Rightarrow> world \<Rightarrow> string \<Rightarrow> (pyexc + nat) \<times> world" where
  "redis_delete env st key =
     (let st1 = emit (Redis DEL key) st in
      if redis_fails env DEL then (Inl RedisError, st1)
      else (Inr (if redis st1 key = None then 0 else 1), st1\<lparr>redis := (redis st1)(key := None)\<rparr>))"

text \<open>
  \<open>get_sqlite_connection\<close>: opens the database and creates the table if it is missing;
  any failure is re-raised as an \<open>HTTPException\<close>.
\<close>

definition get_sqlite_connection :: "env \<Rightarrow> world \<Rightarrow> (pyexc + unit) \<times> world" where
  "get_sqlite_connection env st =
     (let st1 = emit (Sqlite CONNECT) st in
      if sqlite_fails env CONNECT then (Inl (HTTPException 500 ''Database connection error''), st1)
      else (Inr (), st1))"

text \<open>The SQLite statements the module executes on the table \<^verbatim>\<open>memory\<close>.\<close>

definition sqlite_insert ::
  "env \<Rightarrow> world \<Rightarrow> string \<Rightarrow> string \<Rightarrow> string \<Rightarrow> string option \<Rightarrow> (pyexc + unit) \<times> world" where
  "sqlite_insert env st project timestamp data_s metadata_s =
     (let st1 = emit (Sqlite INSERT) st in
      if sqlite_fails env INSERT then (Inl PyError, st1)
      else (Inr (),
            st1\<lparr>sqlite := sqlite st1 @
                   [\<lparr>row_id = Suc (sqlite_seq st1), row_project = project,
                     row_timestamp = timestamp, row_data = data_s,
                     row_metadata = metadata_s\<rparr>],
                 sqlite_seq := Suc (sqlite_seq st1)\<rparr>))"

text \<open>
  The \<^verbatim>\<open>WHERE\<close> clause of the read: \<^verbatim>\<open>project = ?\<close>, then \<^verbatim>\<open>AND timestamp >= ?\<close> under
  \<^verbatim>\<open>if start_time:\<close> and \<^verbatim>\<open>AND timestamp <= ?\<close> under \<^verbatim>\<open>if end_time:\<close>. The column is
  \<^verbatim>\<open>TEXT\<close>, compared byte by byte.
\<close>

definition read_where :: "string \<Rightarrow> string option \<Rightarrow> string option \<Rightarrow> row \<Rightarrow> bool" where
  "read_where project start_time end_time r =
     (row_project r = project
      \<and> (if str_truthy start_time then the start_time \<le> row_timestamp r else True)
      \<and> (if str_truthy end_time then row_timestamp r \<le> the end_time else True))"

text \<open>
  \<^verbatim>\<open>ORDER BY timestamp DESC\<close> (SQL leaves the order of rows with equal timestamps open;
  here they stay in the order of insertion, as SQLite returns them) and
  \<^verbatim>\<open>LIMIT ? OFFSET ?\<close>: a negative limit is no limit, a negative offset is 0.
\<close>

definition order_by_timestamp_desc :: "row list \<Rightarrow> row list" where
  "order_by_timestamp_desc rows = rev (sort_key row_timestamp (rev rows))"

definition sql_limit_offset :: "int \<Rightarrow> int \<Rightarrow> 'a list \<Rightarrow> 'a list" where
  "sql_limit_offset lim off xs =
     (let ys = drop (nat off) xs in if lim < 0 then ys else take (nat lim) ys)"

definition sqlite_select ::
  "env \<Rightarrow> world \<Rightarrow> (row \<Rightarrow> bool) \<Rightarrow> int \<Rightarrow> int \<Rightarrow> (pyexc + row list) \<times> world" where
  "sqlite_select env st wh lim off =
     (let st1 = emit (Sqlite SELECT) st in
      if sqlite_fails env SELECT then (Inl PyError, st1)
      else (Inr (sql_limit_offset lim off (order_by_timestamp_desc (filter wh (sqlite st1)))), st1))"

definition sqlite_count :: "env \<Rightarrow> world \<Rightarrow> (row \<Rightarrow> bool) \<Rightarrow> (pyexc + int) \<times> world" where
  "sqlite_count env st wh =
     (let st1 = emit (Sqlite COUNT) st in
      if sqlite_fails env COUNT then (Inl PyError, st1)
      else (Inr (int (length (filter wh (sqlite st1)))), st1))"

text \<open>\<^verbatim>\<open>DELETE FROM memory WHERE project = ?\<close>, then \<^verbatim>\<open>changes()\<close>.\<close>

definition sqlite_delete :: "env \<Rightarrow> world \<Rightarrow> string \<Rightarrow> (pyexc + nat) \<times> world" where
  "sqlite_delete env st project =
     (let st1 = emit (Sqlite DELETE) st in
      if sqlite_fails env DELETE then (Inl PyError, st1)
      else (Inr (length (filter (\<lambda>r. row_project r = project) (sqlite st1))),
            st1\<lparr>sqlite := filter (\<lambda>r. row_project r \<noteq> project) (sqlite st1)\<rparr>))"




subsection \<open>Requests and responses\<close>

record write_request =
  wr_data :: "(string \<times> json) list"
  wr_metadata :: "(string \<times> json) list option"

record write_response =
  w_status :: string
  w_id :: string
  w_project :: string
  w_timestamp :: string

record item =
  item_id :: string
  item_project :: string
  item_timestamp :: string
  item_data :: json
  item_metadata :: json

record page =
  pg_items :: "item list"
  pg_total :: int
  pg_limit :: int
  pg_offset :: int



record purge_response =
  p_status :: string
  p_project :: string
  redis_deleted :: bool
  sqlite_deleted :: nat
  p_timestamp :: string

subsection \<open>write\_memory\<close>

text \<open>\<^verbatim>\<open>request.metadata or {}\<close>.\<close>

definition metadata_or_empty :: "(string \<times> json) list option \<Rightarrow> (string \<times> json) list" where
  "metadata_or_empty m = (case m of None \<Rightarrow> [] | Some d \<Rightarrow> if dict_truthy d then d else [])"

text \<open>
  The inner \<^verbatim>\<open>try\<close> of \<open>write_memory\<close>: connect, insert one row; \<^verbatim>\<open>except Exception\<close> prints
  and goes on, so only the world is returned.
\<close>

definition sqlite_backup ::
  "env \<Rightarrow> world \<Rightarrow> string \<Rightarrow> string \<Rightarrow> json \<Rightarrow> (string \<times> json) list \<Rightarrow> world" where
  "sqlite_backup env st project timestamp memory_data metadata =
     (case get_sqlite_connection env st of
        (Inl e, st1) \<Rightarrow> st1
      | (Inr c, st1) \<Rightarrow>
          snd (sqlite_insert env st1 project timestamp (json_dumps env memory_data)
                 (if dict_truthy metadata then Some (json_dumps env (JDict metadata)) else None)))"

definition write_body ::
  "env \<Rightarrow> world \<Rightarrow> string \<Rightarrow> write_request \<Rightarrow> (pyexc + write_response) \<times> world" where
  "write_body env st project request =
     (if \<not> valid_project project then (Inl (HTTPException 400 ''Invalid project ID''), st)
      else
        let timestamp = now env;
            memory_data = JDict (wr_data request);
            metadata = metadata_or_empty (wr_metadata request)
        in case redis_xadd env st (stream_key project)
                  [(''data'', json_dumps env memory_data),
                   (''metadata'', json_dumps env (JDict metadata)),
                   (''timestamp'', timestamp)] of
             (Inl e, st1) \<Rightarrow> (Inl e, st1)
           | (Inr memory_id, st1) \<Rightarrow>
               (Inr \<lparr>w_status = ''success'', w_id = memory_id, w_project = project,
                     w_timestamp = timestamp\<rparr>,
                sqlite_backup env st1 project timestamp memory_data metadata))"

text \<open>
  The handlers of the outer \<^verbatim>\<open>try\<close>: \<^verbatim>\<open>except redis.RedisError\<close> first, then
  \<^verbatim>\<open>except Exception\<close>, which also catches an \<open>HTTPException\<close> raised in the body.
\<close>

definition write_memory ::
  "env \<Rightarrow> world \<Rightarrow> string \<Rightarrow> write_request \<Rightarrow> (pyexc + write_response) \<times> world" where
  "write_memory env st project request =
     (case write_body env st project request of
        (Inl RedisError, st1) \<Rightarrow> (Inl (HTTPException 500 ''Memory storage error''), st1)
      | (Inl e, st1) \<Rightarrow> (Inl (HTTPException 500 ''Internal server error''), st1)
      | (Inr r, st1) \<Rightarrow> (Inr r, st1))"

subsection \<open>read\_memory\<close>

text \<open>One item of the primary branch, from a stream entry \<open>(entry_id, entry_data)\<close>.\<close>

definition format_entry :: "env \<Rightarrow> string \<Rightarrow> entry \<Rightarrow> pyexc + item" where
  "format_entry env project e =
     (case json_loads env (dict_get (snd e) ''data'' ''{}'') of
        None \<Rightarrow> Inl PyError
      | Some d \<Rightarrow>
          if str_truthy (map_of (snd e) ''metadata'') then
            (case json_loads env (dict_get (snd e) ''metadata'' ''{}'') of
               None \<Rightarrow> Inl PyError
             | Some m \<Rightarrow>
                 Inr \<lparr>item_id = fst e, item_project = project,
                      item_timestamp = dict_get (snd e) ''timestamp'' [],
                      item_data = d, item_metadata = m\<rparr>)
          else
            Inr \<lparr>item_id = fst e, item_project = project,
                 item_timestamp = dict_get (snd e) ''timestamp'' [],
                 item_data = d, item_metadata = JNull\<rparr>)"

text \<open>One item of the secondary branch, from a row \<open>(id, timestamp, data, metadata)\<close>.\<close>

definition format_row :: "env \<Rightarrow> string \<Rightarrow> row \<Rightarrow> pyexc + item" where
  "format_row env project r =
     (case json_loads env (row_data r) of
        None \<Rightarrow> Inl PyError
      | Some d \<Rightarrow>
          if str_truthy (row_metadata r) then
            (case json_loads env (the (row_metadata r)) of
               None \<Rightarrow> Inl PyError
             | Some m \<Rightarrow>
                 Inr \<lparr>item_id = str_of_nat (row_id r), item_project = project,
                      item_timestamp = row_timestamp r, item_data = d, item_metadata = m\<rparr>)
          else
            Inr \<lparr>item_id = str_of_nat (row_id r), item_project = project,
                 item_timestamp = row_timestamp r, item_data = d, item_metadata = JNull\<rparr>)"

text \<open>
  The secondary branch. The source has it twice with the same text, once where the key is
  absent and once in the handler of \<^verbatim>\<open>redis.RedisError\<close>: connect, select the page, count,
  format the rows.
\<close>

definition sqlite_read ::
  "env \<Rightarrow> world \<Rightarrow> string \<Rightarrow> int \<Rightarrow> int \<Rightarrow> string option \<Rightarrow> string option
   \<Rightarrow> (pyexc + page) \<times> world" where
  "sqlite_read env st project lim off start_time end_time =
     (case get_sqlite_connection env st of
        (Inl e, st1) \<Rightarrow> (Inl e, st1)
      | (Inr c, st1) \<Rightarrow>
     (case sqlite_select env st1 (read_where project start_time end_time) lim off of
        (Inl e, st2) \<Rightarrow> (Inl e, st2)
      | (Inr rows, st2) \<Rightarrow>
     (case sqlite_count env st2 (read_where project start_time end_time) of
        (Inl e, st3) \<Rightarrow> (Inl e, st3)
      | (Inr tot, st3) \<Rightarrow>
     (case for_each (format_row env project) rows of
        Inl e \<Rightarrow> (Inl e, st3)
      | Inr items \<Rightarrow>
          (Inr \<lparr>pg_items = items, pg_total = tot, pg_limit = lim, pg_offset = off\<rparr>, st3)))))"

text \<open>\<^verbatim>\<open>dflt if not t else t\<close> for the two range bounds.\<close>

definition bound_or :: "string \<Rightarrow> string option \<Rightarrow> string" where
  "bound_or dflt t = (if \<not> str_truthy t then dflt else the t)"

definition read_body ::
  "env \<Rightarrow> world \<Rightarrow> string \<Rightarrow> int \<Rightarrow> int \<Rightarrow> string option \<Rightarrow> string option
   \<Rightarrow> (pyexc + page) \<times> world" where
  "read_body env st project lim off start_time end_time =
     (if \<not> valid_project project then (Inl (HTTPException 400 ''Invalid project ID''), st)
      else
     (case redis_exists env st (stream_key project) of
        (Inl e, st1) \<Rightarrow> (Inl e, st1)
      | (Inr ex, st1) \<Rightarrow>
          if \<not> ex then
            (case sqlite_read env st1 project lim off start_time end_time of
               (Inl e, st2) \<Rightarrow>
                 (Inr \<lparr>pg_items = [], pg_total = 0, pg_limit = lim, pg_offset = off\<rparr>, st2)
             | (Inr pg, st2) \<Rightarrow> (Inr pg, st2))
          else
     (case redis_xlen env st1 (stream_key project) of
        (Inl e, st2) \<Rightarrow> (Inl e, st2)
      | (Inr tot, st2) \<Rightarrow>
     (case redis_xrange env st2 (stream_key project)
             (bound_or ''-'' start_time) (bound_or ''+'' end_time) of
        (Inl e, st3) \<Rightarrow> (Inl e, st3)
      | (Inr entries, st3) \<Rightarrow>
     (case for_each (format_entry env project) (py_slice entries off (off + lim)) of
        Inl e \<Rightarrow> (Inl e, st3)
      | Inr items \<Rightarrow>
          (Inr \<lparr>pg_items = items, pg_total = tot, pg_limit = lim, pg_offset = off\<rparr>,
           st3))))))"

text \<open>
  The handlers: on \<^verbatim>\<open>redis.RedisError\<close> the secondary branch is run once, and its failure
  raises the retrieval error out of the handler; any other exception of the body becomes
  the internal error.
\<close>

definition read_memory ::
  "env \<Rightarrow> world \<Rightarrow> string \<Rightarrow> int \<Rightarrow> int \<Rightarrow> string option \<Rightarrow> string option
   \<Rightarrow> (pyexc + page) \<times> world" where
  "read_memory env st project lim off start_time end_time =
     (case read_body env st project lim off start_time end_time of
        (Inl RedisError, st1) \<Rightarrow>
          (case sqlite_read env st1 project lim off start_time end_time of
             (Inl e, st2) \<Rightarrow> (Inl (HTTPException 500 ''Memory retrieval error''), st2)
           | (Inr pg, st2) \<Rightarrow> (Inr pg, st2))
      | (Inl e, st1) \<Rightarrow> (Inl (HTTPException 500 ''Internal server error''), st1)
      | (Inr pg, st1) \<Rightarrow> (Inr pg, st1))"

subsection \<open>query\_memory\<close>











subsection \<open>purge\_memory\<close>

definition purge_body ::
  "env \<Rightarrow> world \<Rightarrow> string \<Rightarrow> bool \<Rightarrow> (pyexc + purge_response) \<times> world" where
  "purge_body env st project confirm =
     (if \<not> valid_project project then (Inl (HTTPException 400 ''Invalid project ID''), st)
      else if \<not> confirm then (Inl (HTTPException 400 ''Confirmation required''), st)
      else
     (case redis_delete env st (stream_key project) of
        (Inl e, st1) \<Rightarrow> (Inl e, st1)
      | (Inr redis_del, st1) \<Rightarrow>
     (case get_sqlite_connection env st1 of
        (Inl e, st2) \<Rightarrow> (Inl e, st2)
      | (Inr c, st2) \<Rightarrow>
     (case sqlite_delete env st2 project of
        (Inl e, st3) \<Rightarrow> (Inl e, st3)
      | (Inr sqlite_del, st3) \<Rightarrow>
          (Inr \<lparr>p_status = ''success'', p_project = project,
                redis_deleted = (redis_del \<noteq> 0), sqlite_deleted = sqlite_del,
                p_timestamp = now env\<rparr>, st3)))))"

definition purge_memory ::
  "env \<Rightarrow> world \<Rightarrow> string \<Rightarrow> bool \<Rightarrow> (pyexc + purge_response) \<times> world" where
  "purge_memory env st project confirm =
     (case purge_body env st project confirm of
        (Inl RedisError, st1) \<Rightarrow> (Inl (HTTPException 500 ''Memory purge error''), st1)
      | (Inl e, st1) \<Rightarrow> (Inl (HTTPException 500 ''Internal server error''), st1)
      | (Inr r, st1) \<Rightarrow> (Inr r, st1))"

subsection \<open>The matching rule of the query as the specification words it\<close>





subsection \<open>A concrete environment and concrete worlds\<close>

text \<open>
  The examples below run the handlers in this environment. Its \<^verbatim>\<open>json\<close> library writes
  documents the way \<^verbatim>\<open>json.dumps\<close> does (for strings that need no escaping) and reads back
  the documents that occur in the examples; ids and range bounds are compared as strings.
\<close>

fun sample_dumps :: "json \<Rightarrow> string"
  and sample_dumps_list :: "json list \<Rightarrow> string"
  and sample_dumps_dict :: "(string \<times> json) list \<Rightarrow> string"
where
  "sample_dumps JNull = ''null''"
| "sample_dumps (JBool b) = (if b then ''true'' else ''false'')"
| "sample_dumps (JInt i) =
     (if i < 0 then ''-'' @ str_of_nat (nat (- i)) else str_of_nat (nat i))"
| "sample_dumps (JStr s) = ''\"'' @ s @ ''\"''"
| "sample_dumps (JList xs) = ''['' @ sample_dumps_list xs @ '']''"
| "sample_dumps (JDict d) = ''{'' @ sample_dumps_dict d @ ''}''"
| "sample_dumps_list [] = []"
| "sample_dumps_list (x # xs) =
     sample_dumps x @ (if xs = [] then [] else '', '' @ sample_dumps_list xs)"
| "sample_dumps_dict [] = []"
| "sample_dumps_dict (kv # d) =
     ''\"'' @ fst kv @ ''\": '' @ sample_dumps (snd kv)
     @ (if d = [] then [] else '', '' @ sample_dumps_dict d)"

definition sample_docs :: "json list" where
  "sample_docs =
     [JDict [], JDict [(''k'', JStr ''v1'')], JDict [(''k'', JStr ''v2'')],
      JDict [(''k'', JStr ''v3'')], JDict [(''tag'', JStr ''Alpha'')]]"

definition sample_loads :: "string \<Rightarrow> json option" where
  "sample_loads s = find (\<lambda>doc. sample_dumps doc = s) sample_docs"

definition sample_str :: "json \<Rightarrow> string" where
  "sample_str v = (case v of JStr s \<Rightarrow> s | _ \<Rightarrow> sample_dumps v)"

definition env0 :: env where
  "env0 =
     \<lparr>now = ''2024-05-01T10:00:00'', json_dumps = sample_dumps, json_loads = sample_loads,
      py_str = sample_str, redis_new_id = ''4-0'',
      redis_id_ge = (\<lambda>i b. b \<le> i), redis_id_le = (\<lambda>i b. i \<le> b),
      redis_fails = (\<lambda>c. False), sqlite_fails = (\<lambda>c. False)\<rparr>"

text \<open>A world with nothing stored, and one where project \<open>proj1\<close> has three records.\<close>

definition world0 :: world where
  "world0 = \<lparr>redis = (\<lambda>k. None), sqlite = [], sqlite_seq = 0, trace = []\<rparr>"

definition world3 :: world where
  "world3 =
     \<lparr>redis = (\<lambda>k. if k = ''project:proj1'' then
          Some [(''1-0'', [(''data'', ''{\"k\": \"v1\"}''), (''metadata'', ''{}''),
                           (''timestamp'', ''2024-05-01T09:00:01'')]),
                (''2-0'', [(''data'', ''{\"k\": \"v2\"}''), (''metadata'', ''{\"tag\": \"Alpha\"}''),
                           (''timestamp'', ''2024-05-01T09:00:02'')]),
                (''3-0'', [(''data'', ''{\"k\": \"v3\"}''), (''metadata'', ''{}''),
                           (''timestamp'', ''2024-05-01T09:00:03'')])]
          else None),
      sqlite =
        [\<lparr>row_id = 1, row_project = ''proj1'', row_timestamp = ''2024-05-01T09:00:01'',
          row_data = ''{\"k\": \"v1\"}'', row_metadata = None\<rparr>,
         \<lparr>row_id = 2, row_project = ''proj1'', row_timestamp = ''2024-05-01T09:00:02'',
          row_data = ''{\"k\": \"v2\"}'', row_metadata = Some ''{\"tag\": \"Alpha\"}''\<rparr>,
         \<lparr>row_id = 3, row_project = ''proj1'', row_timestamp = ''2024-05-01T09:00:03'',
          row_data = ''{\"k\": \"v3\"}'', row_metadata = None\<rparr>],
      sqlite_seq = 3, trace = []\<rparr>"

text \<open>The same three records with the stream of the project gone.\<close>

definition world3s :: world where
  "world3s = world3\<lparr>redis := (\<lambda>k. None)\<rparr>"

subsection \<open>The page of a read\<close>

text \<open>
  The entries the primary branch formats (the range scan, sliced) and the rows the
  secondary branch formats (the \<^verbatim>\<open>SELECT\<close> with its \<^verbatim>\<open>LIMIT\<close> and \<^verbatim>\<open>OFFSET\<close>), as the two
  branches of \<open>read_memory\<close> compute them.
\<close>

definition primary_page ::
  "env \<Rightarrow> world \<Rightarrow> string \<Rightarrow> int \<Rightarrow> int \<Rightarrow> string option \<Rightarrow> string option \<Rightarrow> entry list" where
  "primary_page env st project lim off start_time end_time =
     py_slice
       (filter (\<lambda>en. id_in_range env (bound_or ''-'' start_time) (bound_or ''+'' end_time) (fst en))
          (stream_of st (stream_key project)))
       off (off + lim)"

definition secondary_page ::
  "world \<Rightarrow> string \<Rightarrow> int \<Rightarrow> int \<Rightarrow> string option \<Rightarrow> string option \<Rightarrow> row list" where
  "secondary_page st project lim off start_time end_time =
     sql_limit_offset lim off
       (order_by_timestamp_desc (filter (read_where project start_time end_time) (sqlite st)))"

section \<open>Properties\<close>

subsection \<open>Store commands\<close>

lemmas store_defs = redis_xadd_def redis_exists_def redis_xlen_def redis_xrange_def
  redis_delete_def get_sqlite_connection_def sqlite_insert_def sqlite_select_def
  sqlite_count_def sqlite_delete_def emit_def stream_of_def Let_def

lemma valid_project_proj1: "valid_project ''proj1''"
  by (simp add: valid_project_def isalnum_def isalnum_char_def)

lemma sample_loads_simps:
  "sample_loads ''{}'' = Some (JDict [])"
  "sample_loads ''{\"k\": \"v1\"}'' = Some (JDict [(''k'', JStr ''v1'')])"
  "sample_loads ''{\"k\": \"v2\"}'' = Some (JDict [(''k'', JStr ''v2'')])"
  "sample_loads ''{\"k\": \"v3\"}'' = Some (JDict [(''k'', JStr ''v3'')])"
  "sample_loads ''{\"tag\": \"Alpha\"}'' = Some (JDict [(''tag'', JStr ''Alpha'')])"
  by (simp_all add: sample_loads_def sample_docs_def)

lemma str_of_nat_samples:
  "str_of_nat 1 = ''1''" "str_of_nat 2 = ''2''" "str_of_nat 3 = ''3''" "str_of_nat 4 = ''4''"
  by code_simp+

subsection \<open>write\_memory\<close>

text \<open>
  C1. For a valid project, if the append to the stream does not raise, \<open>write_memory\<close>
  returns success with the id the stream assigned and the timestamp taken once, whatever
  the SQLite commands do: exactly one entry is appended, carrying that timestamp, and
  after the append the handler sends one \<^verbatim>\<open>CONNECT\<close> and at most one \<^verbatim>\<open>INSERT\<close>.
\<close>

theorem write_memory_primary_decides:
  assumes "valid_project project" and "\<not> redis_fails env XADD"
  shows "fst (write_memory env st project request) =
           Inr \<lparr>w_status = ''success'', w_id = redis_new_id env, w_project = project,
                w_timestamp = now env\<rparr>
     \<and> redis (snd (write_memory env st project request)) (stream_key project) =
           Some (stream_of st (stream_key project) @
             [(redis_new_id env,
               [(''data'', json_dumps env (JDict (wr_data request))),
                (''metadata'', json_dumps env (JDict (metadata_or_empty (wr_metadata request)))),
                (''timestamp'', now env)])])
     \<and> trace (snd (write_memory env st project request)) =
           trace st @ [Redis XADD (stream_key project), Sqlite CONNECT]
             @ (if sqlite_fails env CONNECT then [] else [Sqlite INSERT])
     \<and> count_list (drop (length (trace st)) (trace (snd (write_memory env st project request))))
           (Sqlite INSERT) \<le> 1"
  using assms
  by (simp add: write_memory_def write_body_def redis_xadd_def sqlite_backup_def
        get_sqlite_connection_def sqlite_insert_def emit_def stream_of_def Let_def)

text \<open>The same write with every SQLite command failing: success, and no row stored.\<close>

theorem write_memory_primary_decides_witness:
  "valid_project ''proj1'' \<and> \<not> redis_fails (env0\<lparr>sqlite_fails := (\<lambda>c. True)\<rparr>) XADD
   \<and> fst (write_memory (env0\<lparr>sqlite_fails := (\<lambda>c. True)\<rparr>) world0 ''proj1''
            \<lparr>wr_data = [(''k'', JStr ''v1'')], wr_metadata = None\<rparr>) =
         Inr \<lparr>w_status = ''success'', w_id = ''4-0'', w_project = ''proj1'',
              w_timestamp = ''2024-05-01T10:00:00''\<rparr>
   \<and> sqlite (snd (write_memory (env0\<lparr>sqlite_fails := (\<lambda>c. True)\<rparr>) world0 ''proj1''
            \<lparr>wr_data = [(''k'', JStr ''v1'')], wr_metadata = None\<rparr>)) = []"
proof -
  have f: "\<not> redis_fails (env0\<lparr>sqlite_fails := (\<lambda>c. True)\<rparr>) XADD"
    by (simp add: env0_def)
  have s: "sqlite (snd (write_memory (env0\<lparr>sqlite_fails := (\<lambda>c. True)\<rparr>) world0 ''proj1''
            \<lparr>wr_data = [(''k'', JStr ''v1'')], wr_metadata = None\<rparr>)) = []"
    using valid_project_proj1
    by (simp add: write_memory_def write_body_def sqlite_backup_def store_defs
          env0_def world0_def)
  from write_memory_primary_decides [OF valid_project_proj1 f, of world0
      "\<lparr>wr_data = [(''k'', JStr ''v1'')], wr_metadata = None\<rparr>"]
  show ?thesis using valid_project_proj1 f s by (simp add: env0_def)
qed

subsection \<open>read\_memory\<close>

lemma for_each_all2:
  "for_each f xs = Inr ys \<Longrightarrow> list_all2 (\<lambda>x y. f x = Inr y) xs ys"
  by (induction xs arbitrary: ys) (auto split: sum.splits)

lemma for_each_member:
  "for_each f xs = Inr ys \<Longrightarrow> x \<in> set xs \<Longrightarrow> f x = Inr y \<Longrightarrow> y \<in> set ys"
  by (induction xs arbitrary: ys) (auto split: sum.splits)

lemma for_each_length: "for_each f xs = Inr ys \<Longrightarrow> length ys = length xs"
  by (induction xs arbitrary: ys) (auto split: sum.splits)

lemma format_entry_not_redis: "for_each (format_entry env project) xs \<noteq> Inl RedisError"
  by (induction xs) (auto simp: format_entry_def split: sum.splits option.splits)

lemma format_row_not_redis: "for_each (format_row env project) xs \<noteq> Inl RedisError"
  by (induction xs) (auto simp: format_row_def split: sum.splits option.splits)

lemma sqlite_read_fst_cong:
  "sqlite st = sqlite st' \<Longrightarrow>
   fst (sqlite_read env st project lim off s e) = fst (sqlite_read env st' project lim off s e)"
  by (simp add: sqlite_read_def store_defs split: sum.splits)

lemma sqlite_read_ok:
  assumes "\<not> sqlite_fails env CONNECT" "\<not> sqlite_fails env SELECT" "\<not> sqlite_fails env COUNT"
    and "for_each (format_row env project)
           (sql_limit_offset lim off
              (order_by_timestamp_desc (filter (read_where project s e) (sqlite st)))) = Inr its"
  shows "sqlite_read env st project lim off s e =
           (Inr \<lparr>pg_items = its,
                 pg_total = int (length (filter (read_where project s e) (sqlite st))),
                 pg_limit = lim, pg_offset = off\<rparr>,
            st\<lparr>trace := trace st @ [Sqlite CONNECT, Sqlite SELECT, Sqlite COUNT]\<rparr>)"
  using assms by (simp add: sqlite_read_def store_defs)

lemma read_body_absent:
  assumes "valid_project project" "\<not> redis_fails env EXISTS" "redis st (stream_key project) = None"
  shows "read_body env st project lim off s e =
     (case sqlite_read env (emit (Redis EXISTS (stream_key project)) st) project lim off s e of
        (Inl x, st2) \<Rightarrow> (Inr \<lparr>pg_items = [], pg_total = 0, pg_limit = lim, pg_offset = off\<rparr>, st2)
      | (Inr pg, st2) \<Rightarrow> (Inr pg, st2))"
  using assms by (simp add: read_body_def redis_exists_def Let_def emit_def)

lemma read_body_present:
  assumes "valid_project project" "\<not> redis_fails env EXISTS" "\<not> redis_fails env XLEN"
    "\<not> redis_fails env XRANGE" "redis st (stream_key project) = Some log"
  shows "read_body env st project lim off s e =
     (case for_each (format_entry env project)
             (py_slice (filter (\<lambda>en. id_in_range env (bound_or ''-'' s) (bound_or ''+'' e) (fst en)) log)
                off (off + lim)) of
        Inl x \<Rightarrow> (Inl x, st\<lparr>trace := trace st @ [Redis EXISTS (stream_key project),
                     Redis XLEN (stream_key project), Redis XRANGE (stream_key project)]\<rparr>)
      | Inr items \<Rightarrow>
          (Inr \<lparr>pg_items = items, pg_total = int (length log), pg_limit = lim, pg_offset = off\<rparr>,
           st\<lparr>trace := trace st @ [Redis EXISTS (stream_key project),
                     Redis XLEN (stream_key project), Redis XRANGE (stream_key project)]\<rparr>))"
  using assms by (simp add: read_body_def store_defs split: sum.splits)

lemma read_body_primary_raises:
  assumes "valid_project project"
    and "redis_fails env EXISTS
         \<or> (redis st (stream_key project) \<noteq> None
            \<and> (redis_fails env XLEN \<or> redis_fails env XRANGE))"
  shows "fst (read_body env st project lim off s e) = Inl RedisError
       \<and> sqlite (snd (read_body env st project lim off s e)) = sqlite st"
  using assms by (auto simp: read_body_def store_defs split: sum.splits)

lemma sqlite_read_not_redis: "fst (sqlite_read env st project lim off s e) \<noteq> Inl RedisError"
  using format_row_not_redis [of env project]
  by (auto simp: sqlite_read_def store_defs split: sum.splits)

lemma read_where_iff:
  "read_where project start_time end_time r \<longleftrightarrow>
     row_project r = project
     \<and> (\<forall>s. start_time = Some s \<and> s \<noteq> [] \<longrightarrow> s \<le> row_timestamp r)
     \<and> (\<forall>e. end_time = Some e \<and> e \<noteq> [] \<longrightarrow> row_timestamp r \<le> e)"
  by (auto simp: read_where_def str_truthy_def split: option.splits)

lemma order_by_timestamp_desc_sorted:
  "sorted (rev (map row_timestamp (order_by_timestamp_desc rows)))"
  by (simp add: order_by_timestamp_desc_def rev_map [symmetric])

lemma order_by_timestamp_desc_mset:
  "mset (order_by_timestamp_desc rows) = mset rows"
  by (simp add: order_by_timestamp_desc_def)

lemma length_filter_eq_iff: "length (filter P xs) = length xs \<longleftrightarrow> (\<forall>x\<in>set xs. P x)"
proof
  assume eq: "length (filter P xs) = length xs"
  show "\<forall>x\<in>set xs. P x"
  proof (rule ballI, rule ccontr)
    fix x assume "x \<in> set xs" and "\<not> P x"
    then have "length (filter P xs) < length xs" by (rule length_filter_less)
    with eq show False by simp
  qed
next
  assume "\<forall>x\<in>set xs. P x"
  then have "filter P xs = xs" by (simp add: filter_id_conv)
  then show "length (filter P xs) = length xs" by simp
qed

lemma py_slice_nonneg:
  assumes "0 \<le> i" and "0 \<le> n"
  shows "py_slice xs i (i + n) = take (nat n) (drop (nat i) xs)"
proof (cases "i \<le> int (length xs)")
  case True
  then have lo: "min i (int (length xs)) = i" by simp
  show ?thesis
  proof (cases "i + n \<le> int (length xs)")
    case True
    with assms \<open>i \<le> int (length xs)\<close> show ?thesis
      by (simp add: py_slice_def Let_def)
  next
    case False
    then have "length (drop (nat i) xs) \<le> nat n" using assms by simp
    moreover have "nat (int (length xs) - i) = length (drop (nat i) xs)"
      using assms True by simp
    ultimately show ?thesis
      using assms True False by (simp add: py_slice_def Let_def)
  qed
next
  case False
  then have "drop (nat i) xs = []" by simp
  with assms False show ?thesis
    by (simp add: py_slice_def Let_def)
qed

text \<open>
  C3. In the primary branch (the key exists and no Redis command raises) the returned
  total is the length of the whole stream of the project, whatever the bounds are. The
  items are the entries of the range scan cut by the slice \<^verbatim>\<open>[offset : offset + limit]\<close>,
  formatted one by one; for an offset and a limit that are not negative the slice drops
  \<open>offset\<close> entries of the window and takes \<open>limit\<close> of the rest. So the total differs from
  the number of entries in the window exactly when some entry of the stream lies outside
  the window.
\<close>

theorem read_memory_primary_total_is_stream_length:
  assumes "valid_project project"
    and "\<not> redis_fails env EXISTS" and "\<not> redis_fails env XLEN"
    and "\<not> redis_fails env XRANGE"
    and "redis st (stream_key project) = Some log"
    and "window = filter (\<lambda>en. id_in_range env (bound_or ''-'' start_time)
                                  (bound_or ''+'' end_time) (fst en)) log"
    and "for_each (format_entry env project) (py_slice window off (off + lim)) = Inr its"
  shows "fst (read_memory env st project lim off start_time end_time) =
           Inr \<lparr>pg_items = its, pg_total = int (length log), pg_limit = lim, pg_offset = off\<rparr>
     \<and> list_all2 (\<lambda>en it. format_entry env project en = Inr it)
          (py_slice window off (off + lim)) its
     \<and> (0 \<le> off \<and> 0 \<le> lim \<longrightarrow>
          py_slice window off (off + lim) = take (nat lim) (drop (nat off) window))
     \<and> (int (length log) \<noteq> int (length window)
          \<longleftrightarrow> (\<exists>en\<in>set log. \<not> id_in_range env (bound_or ''-'' start_time)
                                   (bound_or ''+'' end_time) (fst en)))"
proof -
  have b: "read_body env st project lim off start_time end_time =
             (Inr \<lparr>pg_items = its, pg_total = int (length log), pg_limit = lim, pg_offset = off\<rparr>,
              st\<lparr>trace := trace st @ [Redis EXISTS (stream_key project),
                     Redis XLEN (stream_key project), Redis XRANGE (stream_key project)]\<rparr>)"
    using assms(7) unfolding assms(6)
    by (simp add: read_body_present [OF assms(1-5)])
  have r: "fst (read_memory env st project lim off start_time end_time) =
             Inr \<lparr>pg_items = its, pg_total = int (length log), pg_limit = lim, pg_offset = off\<rparr>"
    by (simp add: read_memory_def b)
  have w: "int (length log) \<noteq> int (length window)
          \<longleftrightarrow> (\<exists>en\<in>set log. \<not> id_in_range env (bound_or ''-'' start_time)
                                   (bound_or ''+'' end_time) (fst en))"
  proof -
    let ?P = "\<lambda>en. id_in_range env (bound_or ''-'' start_time) (bound_or ''+'' end_time) (fst en)"
    have "length window = length log \<longleftrightarrow> (\<forall>en\<in>set log. ?P en)"
      unfolding assms(6) by (rule length_filter_eq_iff)
    then show ?thesis by auto
  qed
  have sl: "0 \<le> off \<and> 0 \<le> lim \<longrightarrow>
          py_slice window off (off + lim) = take (nat lim) (drop (nat off) window)"
    by (simp add: py_slice_nonneg)
  show ?thesis using r w sl for_each_all2 [OF assms(7)] by simp
qed

text \<open>
  Three records in the stream, a lower bound that leaves the last two in the window,
  offset 1 and limit 1: the third record alone, total 3.
\<close>

theorem read_memory_primary_total_is_stream_length_witness:
  "fst (read_memory env0 world3 ''proj1'' 1 1 (Some ''2-0'') None) =
     Inr \<lparr>pg_items =
            [\<lparr>item_id = ''3-0'', item_project = ''proj1'',
              item_timestamp = ''2024-05-01T09:00:03'',
              item_data = JDict [(''k'', JStr ''v3'')],
              item_metadata = JDict []\<rparr>],
          pg_total = 3, pg_limit = 1, pg_offset = 1\<rparr>
   \<and> py_slice
         [(''2-0'', [(''data'', ''{\"k\": \"v2\"}''), (''metadata'', ''{\"tag\": \"Alpha\"}''),
                     (''timestamp'', ''2024-05-01T09:00:02'')]),
          (''3-0'', [(''data'', ''{\"k\": \"v3\"}''), (''metadata'', ''{}''),
                     (''timestamp'', ''2024-05-01T09:00:03'')])] 1 (1 + 1) =
       [(''3-0'', [(''data'', ''{\"k\": \"v3\"}''), (''metadata'', ''{}''),
                   (''timestamp'', ''2024-05-01T09:00:03'')])]"
proof -
  let ?e1 = "(''1-0'', [(''data'', ''{\"k\": \"v1\"}''), (''metadata'', ''{}''),
                        (''timestamp'', ''2024-05-01T09:00:01'')])"
  let ?e2 = "(''2-0'', [(''data'', ''{\"k\": \"v2\"}''), (''metadata'', ''{\"tag\": \"Alpha\"}''),
                        (''timestamp'', ''2024-05-01T09:00:02'')])"
  let ?e3 = "(''3-0'', [(''data'', ''{\"k\": \"v3\"}''), (''metadata'', ''{}''),
                        (''timestamp'', ''2024-05-01T09:00:03'')])"
  let ?its = "[\<lparr>item_id = ''3-0'', item_project = ''proj1'',
              item_timestamp = ''2024-05-01T09:00:03'',
              item_data = JDict [(''k'', JStr ''v3'')],
              item_metadata = JDict []\<rparr>]"
  have f: "\<not> redis_fails env0 EXISTS" "\<not> redis_fails env0 XLEN" "\<not> redis_fails env0 XRANGE"
    by (simp_all add: env0_def)
  have l: "redis world3 (stream_key ''proj1'') = Some [?e1, ?e2, ?e3]"
    by (simp add: world3_def stream_key_def)
  have w: "[?e2, ?e3] = filter (\<lambda>en. id_in_range env0 (bound_or ''-'' (Some ''2-0''))
                                  (bound_or ''+'' None) (fst en)) [?e1, ?e2, ?e3]"
    by (simp add: id_in_range_def bound_or_def str_truthy_def env0_def)
  have p: "for_each (format_entry env0 ''proj1'') (py_slice [?e2, ?e3] 1 (1 + 1)) = Inr ?its"
    by (simp add: py_slice_def format_entry_def dict_get_def str_truthy_def env0_def
          sample_loads_simps)
  from read_memory_primary_total_is_stream_length [OF valid_project_proj1 f l w p]
  show ?thesis by simp
qed

text \<open>
  C4. For a valid project whose stream key does not exist (and with SQLite answering),
  \<open>read_memory\<close> is served from the table alone: the total is the number of rows of the
  project with \<open>timestamp \<ge> start_time\<close> and \<open>timestamp \<le> end_time\<close>, each bound applying
  when it is given (present and not empty, the test \<^verbatim>\<open>if start_time:\<close>); the items are
  those rows in descending order of timestamp, after \<^verbatim>\<open>OFFSET\<close> and \<^verbatim>\<open>LIMIT\<close>. The only Redis
  command sent is the existence check.
\<close>

theorem read_memory_secondary_when_key_absent:
  assumes "valid_project project"
    and "\<not> redis_fails env EXISTS" and "redis st (stream_key project) = None"
    and "\<not> sqlite_fails env CONNECT" and "\<not> sqlite_fails env SELECT"
    and "\<not> sqlite_fails env COUNT"
    and "matching = filter (\<lambda>r. row_project r = project
            \<and> (\<forall>s. start_time = Some s \<and> s \<noteq> [] \<longrightarrow> s \<le> row_timestamp r)
            \<and> (\<forall>e. end_time = Some e \<and> e \<noteq> [] \<longrightarrow> row_timestamp r \<le> e)) (sqlite st)"
    and "ordered = order_by_timestamp_desc matching"
    and "for_each (format_row env project) (sql_limit_offset lim off ordered) = Inr its"
  shows "fst (read_memory env st project lim off start_time end_time) =
           Inr \<lparr>pg_items = its, pg_total = int (length matching),
                pg_limit = lim, pg_offset = off\<rparr>
     \<and> list_all2 (\<lambda>r it. format_row env project r = Inr it)
          (sql_limit_offset lim off ordered) its
     \<and> sorted (rev (map row_timestamp ordered)) \<and> mset ordered = mset matching
     \<and> sql_limit_offset lim off ordered =
           (if lim < 0 then drop (nat off) ordered else take (nat lim) (drop (nat off) ordered))
     \<and> trace (snd (read_memory env st project lim off start_time end_time)) =
           trace st @ [Redis EXISTS (stream_key project), Sqlite CONNECT, Sqlite SELECT,
                       Sqlite COUNT]"
proof -
  let ?st1 = "emit (Redis EXISTS (stream_key project)) st"
  have m: "matching = filter (read_where project start_time end_time) (sqlite ?st1)"
    unfolding assms(7) by (auto simp: emit_def read_where_iff intro!: filter_cong)
  have r: "sqlite_read env ?st1 project lim off start_time end_time =
           (Inr \<lparr>pg_items = its, pg_total = int (length matching),
                 pg_limit = lim, pg_offset = off\<rparr>,
            ?st1\<lparr>trace := trace ?st1 @ [Sqlite CONNECT, Sqlite SELECT, Sqlite COUNT]\<rparr>)"
    using sqlite_read_ok [OF assms(4-6), of project lim off start_time end_time ?st1 its]
      assms(9) unfolding m assms(8) by simp
  have b: "read_body env st project lim off start_time end_time =
           (Inr \<lparr>pg_items = its, pg_total = int (length matching),
                 pg_limit = lim, pg_offset = off\<rparr>,
            ?st1\<lparr>trace := trace ?st1 @ [Sqlite CONNECT, Sqlite SELECT, Sqlite COUNT]\<rparr>)"
    by (simp add: read_body_absent [OF assms(1-3)] r)
  have res: "fst (read_memory env st project lim off start_time end_time) =
           Inr \<lparr>pg_items = its, pg_total = int (length matching),
                pg_limit = lim, pg_offset = off\<rparr>"
    by (simp add: read_memory_def b)
  have tr: "trace (snd (read_memory env st project lim off start_time end_time)) =
           trace st @ [Redis EXISTS (stream_key project), Sqlite CONNECT, Sqlite SELECT,
                       Sqlite COUNT]"
    by (simp add: read_memory_def b emit_def)
  have so: "sorted (rev (map row_timestamp ordered))" "mset ordered = mset matching"
    unfolding assms(8)
    by (rule order_by_timestamp_desc_sorted, rule order_by_timestamp_desc_mset)
  have lo: "sql_limit_offset lim off ordered =
           (if lim < 0 then drop (nat off) ordered else take (nat lim) (drop (nat off) ordered))"
    by (simp add: sql_limit_offset_def)
  show ?thesis
    using res tr so lo for_each_all2 [OF assms(9)] by blast
qed

text \<open>Three rows, a lower bound that leaves two of them, latest first.\<close>

theorem read_memory_secondary_when_key_absent_witness:
  "fst (read_memory env0 world3s ''proj1'' 2 0 (Some ''2024-05-01T09:00:02'') None) =
     Inr \<lparr>pg_items =
            [\<lparr>item_id = ''3'', item_project = ''proj1'',
              item_timestamp = ''2024-05-01T09:00:03'',
              item_data = JDict [(''k'', JStr ''v3'')], item_metadata = JNull\<rparr>,
             \<lparr>item_id = ''2'', item_project = ''proj1'',
              item_timestamp = ''2024-05-01T09:00:02'',
              item_data = JDict [(''k'', JStr ''v2'')],
              item_metadata = JDict [(''tag'', JStr ''Alpha'')]\<rparr>],
          pg_total = 2, pg_limit = 2, pg_offset = 0\<rparr>"
proof -
  let ?r2 = "\<lparr>row_id = 2, row_project = ''proj1'', row_timestamp = ''2024-05-01T09:00:02'',
          row_data = ''{\"k\": \"v2\"}'', row_metadata = Some ''{\"tag\": \"Alpha\"}''\<rparr>"
  let ?r3 = "\<lparr>row_id = 3, row_project = ''proj1'', row_timestamp = ''2024-05-01T09:00:03'',
          row_data = ''{\"k\": \"v3\"}'', row_metadata = None\<rparr>"
  let ?its = "[\<lparr>item_id = ''3'', item_project = ''proj1'',
              item_timestamp = ''2024-05-01T09:00:03'',
              item_data = JDict [(''k'', JStr ''v3'')], item_metadata = JNull\<rparr>,
             \<lparr>item_id = ''2'', item_project = ''proj1'',
              item_timestamp = ''2024-05-01T09:00:02'',
              item_data = JDict [(''k'', JStr ''v2'')],
              item_metadata = JDict [(''tag'', JStr ''Alpha'')]\<rparr>]"
  have f: "\<not> redis_fails env0 EXISTS" "redis world3s (stream_key ''proj1'') = None"
    "\<not> sqlite_fails env0 CONNECT" "\<not> sqlite_fails env0 SELECT" "\<not> sqlite_fails env0 COUNT"
    by (simp_all add: env0_def world3s_def)
  have m: "[?r2, ?r3] = filter (\<lambda>r. row_project r = ''proj1''
            \<and> (\<forall>s. Some ''2024-05-01T09:00:02'' = Some s \<and> s \<noteq> [] \<longrightarrow> s \<le> row_timestamp r)
            \<and> (\<forall>e. (None :: string option) = Some e \<and> e \<noteq> [] \<longrightarrow> row_timestamp r \<le> e))
            (sqlite world3s)"
    by (simp add: world3s_def world3_def)
  have ord: "[?r3, ?r2] = order_by_timestamp_desc [?r2, ?r3]"
    by (simp add: order_by_timestamp_desc_def)
  have p: "for_each (format_row env0 ''proj1'') (sql_limit_offset 2 0 [?r3, ?r2]) = Inr ?its"
    by (simp add: sql_limit_offset_def format_row_def str_truthy_def env0_def
          sample_loads_simps str_of_nat_samples)
  from read_memory_secondary_when_key_absent [OF valid_project_proj1 f m ord p]
  show ?thesis by simp
qed

text \<open>
  C6. Suppose the secondary branch raises on the table of the world. If the stream key is
  absent (and the existence check answers), \<open>read_memory\<close> returns the empty page with
  total 0 and no error. If the key exists and a Redis command of the read raises, the one
  fallback to the secondary branch raises too and \<open>read_memory\<close> fails with the retrieval
  error.
\<close>

theorem read_memory_failure_policy:
  assumes "valid_project project"
    and "fst (sqlite_read env st project lim off start_time end_time) = Inl x"
  shows "(\<not> redis_fails env EXISTS \<and> redis st (stream_key project) = None \<longrightarrow>
            fst (read_memory env st project lim off start_time end_time) =
              Inr \<lparr>pg_items = [], pg_total = 0, pg_limit = lim, pg_offset = off\<rparr>)
       \<and> (redis st (stream_key project) \<noteq> None
            \<and> (redis_fails env EXISTS \<or> redis_fails env XLEN \<or> redis_fails env XRANGE) \<longrightarrow>
            fst (read_memory env st project lim off start_time end_time) =
              Inl (HTTPException 500 ''Memory retrieval error''))"
proof (intro conjI impI)
  assume a: "\<not> redis_fails env EXISTS \<and> redis st (stream_key project) = None"
  let ?st1 = "emit (Redis EXISTS (stream_key project)) st"
  have "fst (sqlite_read env ?st1 project lim off start_time end_time) = Inl x"
    using assms(2) sqlite_read_fst_cong [of ?st1 st] by (simp add: emit_def)
  then obtain st2 where
    "sqlite_read env ?st1 project lim off start_time end_time = (Inl x, st2)"
    by (cases "sqlite_read env ?st1 project lim off start_time end_time") simp
  then have "fst (read_body env st project lim off start_time end_time) =
               Inr \<lparr>pg_items = [], pg_total = 0, pg_limit = lim, pg_offset = off\<rparr>"
    using a by (simp add: read_body_absent [OF assms(1)])
  then show "fst (read_memory env st project lim off start_time end_time) =
               Inr \<lparr>pg_items = [], pg_total = 0, pg_limit = lim, pg_offset = off\<rparr>"
    by (cases "read_body env st project lim off start_time end_time")
       (simp add: read_memory_def)
next
  assume a: "redis st (stream_key project) \<noteq> None
            \<and> (redis_fails env EXISTS \<or> redis_fails env XLEN \<or> redis_fails env XRANGE)"
  obtain r st1 where b: "read_body env st project lim off start_time end_time = (r, st1)"
    by (cases "read_body env st project lim off start_time end_time")
  have "r = Inl RedisError" "sqlite st1 = sqlite st"
    using read_body_primary_raises [OF assms(1), of env st lim off start_time end_time] a b
    by auto
  moreover have "fst (sqlite_read env st1 project lim off start_time end_time) = Inl x"
    using assms(2) sqlite_read_fst_cong [of st1 st] \<open>sqlite st1 = sqlite st\<close> by simp
  then obtain st2 where
    "sqlite_read env st1 project lim off start_time end_time = (Inl x, st2)"
    by (cases "sqlite_read env st1 project lim off start_time end_time") simp
  ultimately show "fst (read_memory env st project lim off start_time end_time) =
              Inl (HTTPException 500 ''Memory retrieval error'')"
    by (simp add: read_memory_def b)
qed

text \<open>
  SQLite unreachable: the empty page when the key is absent, the retrieval error when the
  key exists and \<^verbatim>\<open>XRANGE\<close> raises.
\<close>

theorem read_memory_failure_policy_witness:
  "fst (read_memory (env0\<lparr>sqlite_fails := (\<lambda>c. True)\<rparr>) world3s ''proj1'' 10 0 None None) =
     Inr \<lparr>pg_items = [], pg_total = 0, pg_limit = 10, pg_offset = 0\<rparr>
   \<and> fst (read_memory (env0\<lparr>redis_fails := (\<lambda>c. c = XRANGE), sqlite_fails := (\<lambda>c. True)\<rparr>)
           world3 ''proj1'' 10 0 None None) =
       Inl (HTTPException 500 ''Memory retrieval error'')"
proof -
  have s1: "fst (sqlite_read (env0\<lparr>sqlite_fails := (\<lambda>c. True)\<rparr>) world3s ''proj1'' 10 0
              None None) = Inl (HTTPException 500 ''Database connection error'')"
    by (simp add: sqlite_read_def get_sqlite_connection_def Let_def env0_def)
  have s2: "fst (sqlite_read (env0\<lparr>redis_fails := (\<lambda>c. c = XRANGE), sqlite_fails := (\<lambda>c. True)\<rparr>)
              world3 ''proj1'' 10 0 None None) = Inl (HTTPException 500 ''Database connection error'')"
    by (simp add: sqlite_read_def get_sqlite_connection_def Let_def env0_def)
  have k1: "\<not> redis_fails (env0\<lparr>sqlite_fails := (\<lambda>c. True)\<rparr>) EXISTS
            \<and> redis world3s (stream_key ''proj1'') = None"
    by (simp add: env0_def world3s_def)
  have k2: "redis world3 (stream_key ''proj1'') \<noteq> None
            \<and> (redis_fails (env0\<lparr>redis_fails := (\<lambda>c. c = XRANGE), sqlite_fails := (\<lambda>c. True)\<rparr>) EXISTS
               \<or> redis_fails (env0\<lparr>redis_fails := (\<lambda>c. c = XRANGE), sqlite_fails := (\<lambda>c. True)\<rparr>) XLEN
               \<or> redis_fails (env0\<lparr>redis_fails := (\<lambda>c. c = XRANGE), sqlite_fails := (\<lambda>c. True)\<rparr>) XRANGE)"
    by (simp add: env0_def world3_def stream_key_def)
  from read_memory_failure_policy [OF valid_project_proj1 s1]
       read_memory_failure_policy [OF valid_project_proj1 s2] k1 k2
  show ?thesis by blast
qed

subsection \<open>write\_memory followed by read\_memory\<close>

lemma write_memory_stores:
  assumes "valid_project project" and "\<not> redis_fails env XADD"
    and "st' = snd (write_memory env st project request)"
  shows "stream_of st' (stream_key project) =
           stream_of st (stream_key project) @
             [(redis_new_id env,
               [(''data'', json_dumps env (JDict (wr_data request))),
                (''metadata'', json_dumps env (JDict (metadata_or_empty (wr_metadata request)))),
                (''timestamp'', now env)])]"
    and "\<not> sqlite_fails env CONNECT \<Longrightarrow> \<not> sqlite_fails env INSERT \<Longrightarrow>
         sqlite st' = sqlite st @
           [\<lparr>row_id = Suc (sqlite_seq st), row_project = project, row_timestamp = now env,
             row_data = json_dumps env (JDict (wr_data request)),
             row_metadata =
               (if dict_truthy (metadata_or_empty (wr_metadata request))
                then Some (json_dumps env (JDict (metadata_or_empty (wr_metadata request))))
                else None)\<rparr>]"
  using assms
  by (simp_all add: write_memory_def write_body_def sqlite_backup_def store_defs)

lemma read_memory_primary:
  assumes "valid_project project"
    and "\<not> redis_fails env EXISTS" "\<not> redis_fails env XLEN" "\<not> redis_fails env XRANGE"
    and "redis st (stream_key project) \<noteq> None"
    and "for_each (format_entry env project)
           (primary_page env st project lim off s e) = Inr its"
  shows "fst (read_memory env st project lim off s e) =
           Inr \<lparr>pg_items = its, pg_total = int (length (stream_of st (stream_key project))),
                pg_limit = lim, pg_offset = off\<rparr>"
proof -
  from assms(5) obtain log where l: "redis st (stream_key project) = Some log" by auto
  then have s: "stream_of st (stream_key project) = log" by (simp add: stream_of_def)
  show ?thesis
    using assms(6) unfolding primary_page_def s
    by (simp add: read_memory_def read_body_present [OF assms(1-4) l])
qed

lemma read_memory_fallback:
  assumes "valid_project project" and "redis_fails env EXISTS"
    and "\<not> sqlite_fails env CONNECT" "\<not> sqlite_fails env SELECT" "\<not> sqlite_fails env COUNT"
    and "for_each (format_row env project) (secondary_page st project lim off s e) = Inr its"
  shows "fst (read_memory env st project lim off s e) =
           Inr \<lparr>pg_items = its,
                pg_total = int (length (filter (read_where project s e) (sqlite st))),
                pg_limit = lim, pg_offset = off\<rparr>"
proof -
  let ?st1 = "emit (Redis EXISTS (stream_key project)) st"
  have b: "read_body env st project lim off s e = (Inl RedisError, ?st1)"
    using assms(1,2) by (simp add: read_body_def redis_exists_def Let_def)
  have "sqlite ?st1 = sqlite st" by (simp add: emit_def)
  with assms(6) have "for_each (format_row env project)
           (sql_limit_offset lim off
              (order_by_timestamp_desc (filter (read_where project s e) (sqlite ?st1)))) = Inr its"
    by (simp add: secondary_page_def)
  from sqlite_read_ok [OF assms(3-5) this] show ?thesis
    by (simp add: read_memory_def b emit_def)
qed

lemma format_entry_written:
  assumes "json_dumps envw (JDict md) \<noteq> []"
    and "json_loads envr (json_dumps envw (JDict d)) = Some (JDict d)"
    and "json_loads envr (json_dumps envw (JDict md)) = Some (JDict md)"
  shows "format_entry envr project
           (i, [(''data'', json_dumps envw (JDict d)),
                (''metadata'', json_dumps envw (JDict md)), (''timestamp'', t)]) =
         Inr \<lparr>item_id = i, item_project = project, item_timestamp = t,
              item_data = JDict d, item_metadata = JDict md\<rparr>"
  using assms by (simp add: format_entry_def dict_get_def str_truthy_def)

text \<open>
  C2, amended. Write a record to a valid project, then read the project on the primary
  path with bounds and a page that hold the new entry. If the \<^verbatim>\<open>json\<close> library reads back
  what it wrote for the two payloads, the read returns an item for the record whose data
  equals the written data and whose metadata equals the written metadata when one was
  supplied, and is the empty mapping when the metadata was omitted or null.
\<close>

theorem write_then_read_round_trip:
  assumes "valid_project project" and "\<not> redis_fails envw XADD"
    and "st' = snd (write_memory envw st project request)"
    and "healthy = envr\<lparr>redis_fails := (\<lambda>c. False)\<rparr>"
    and "json_dumps envw (JDict (metadata_or_empty (wr_metadata request))) \<noteq> []"
    and "json_loads envr (json_dumps envw (JDict (wr_data request))) =
           Some (JDict (wr_data request))"
    and "json_loads envr (json_dumps envw (JDict (metadata_or_empty (wr_metadata request)))) =
           Some (JDict (metadata_or_empty (wr_metadata request)))"
    and "last (stream_of st' (stream_key project))
           \<in> set (primary_page healthy st' project lim off start_time end_time)"
    and "for_each (format_entry healthy project)
           (primary_page healthy st' project lim off start_time end_time) = Inr its"
  shows "fst (read_memory healthy st' project lim off start_time end_time) =
           Inr \<lparr>pg_items = its,
                pg_total = int (length (stream_of st (stream_key project))) + 1,
                pg_limit = lim, pg_offset = off\<rparr>
       \<and> \<lparr>item_id = redis_new_id envw, item_project = project, item_timestamp = now envw,
           item_data = JDict (wr_data request),
           item_metadata =
             (case wr_metadata request of
                None \<Rightarrow> JDict []
              | Some m \<Rightarrow> JDict m)\<rparr> \<in> set its"
proof -
  let ?new = "(redis_new_id envw,
               [(''data'', json_dumps envw (JDict (wr_data request))),
                (''metadata'', json_dumps envw (JDict (metadata_or_empty (wr_metadata request)))),
                (''timestamp'', now envw)])"
  have s: "stream_of st' (stream_key project) = stream_of st (stream_key project) @ [?new]"
    by (rule write_memory_stores(1) [OF assms(1-3)])
  then have k: "redis st' (stream_key project) \<noteq> None"
    by (auto simp: stream_of_def split: option.splits)
  have h: "\<not> redis_fails healthy EXISTS" "\<not> redis_fails healthy XLEN"
    "\<not> redis_fails healthy XRANGE"
    by (simp_all add: assms(4))
  have r: "fst (read_memory healthy st' project lim off start_time end_time) =
           Inr \<lparr>pg_items = its,
                pg_total = int (length (stream_of st (stream_key project))) + 1,
                pg_limit = lim, pg_offset = off\<rparr>"
    using read_memory_primary [OF assms(1) h k assms(9)] by (simp add: s)
  have m: "metadata_or_empty (wr_metadata request) =
             (case wr_metadata request of None \<Rightarrow> [] | Some m \<Rightarrow> m)"
    by (simp add: metadata_or_empty_def dict_truthy_def split: option.splits)
  have f: "format_entry healthy project ?new =
         Inr \<lparr>item_id = redis_new_id envw, item_project = project, item_timestamp = now envw,
              item_data = JDict (wr_data request),
              item_metadata = JDict (metadata_or_empty (wr_metadata request))\<rparr>"
    by (rule format_entry_written) (simp_all add: assms(4-7))
  have "last (stream_of st' (stream_key project)) = ?new" by (simp add: s)
  with assms(8) have "?new \<in> set (primary_page healthy st' project lim off start_time end_time)"
    by simp
  from for_each_member [of "format_entry healthy project" _ its, OF assms(9) this f] r
  show ?thesis
    by (simp add: m split: option.splits)
qed

text \<open>
  C2, as stated, fails for a payload without metadata: the record written with
  \<open>metadata = None\<close> is read back on the primary path with the metadata \<^verbatim>\<open>{}\<close>, which is
  not \<^verbatim>\<open>null\<close>.
\<close>

theorem write_then_read_metadata_counterexample:
  "fst (read_memory env0
          (snd (write_memory env0 world0 ''proj1''
                  \<lparr>wr_data = [(''k'', JStr ''v1'')], wr_metadata = None\<rparr>))
          ''proj1'' 10 0 None None) =
     Inr \<lparr>pg_items =
            [\<lparr>item_id = ''4-0'', item_project = ''proj1'',
              item_timestamp = ''2024-05-01T10:00:00'',
              item_data = JDict [(''k'', JStr ''v1'')], item_metadata = JDict []\<rparr>],
          pg_total = 1, pg_limit = 10, pg_offset = 0\<rparr>
   \<and> JDict [] \<noteq> JNull"
proof -
  let ?req = "\<lparr>wr_data = [(''k'', JStr ''v1'')], wr_metadata = None\<rparr>"
  let ?st = "snd (write_memory env0 world0 ''proj1'' ?req)"
  let ?new = "(''4-0'', [(''data'', ''{\"k\": \"v1\"}''), (''metadata'', ''{}''),
                         (''timestamp'', ''2024-05-01T10:00:00'')])"
  have f: "\<not> redis_fails env0 XADD" "\<not> redis_fails env0 EXISTS" "\<not> redis_fails env0 XLEN"
    "\<not> redis_fails env0 XRANGE"
    by (simp_all add: env0_def)
  have s: "stream_of ?st (stream_key ''proj1'') = [?new]"
    using write_memory_stores(1) [OF valid_project_proj1 f(1) refl, of world0 ?req]
    by (simp add: env0_def world0_def stream_of_def metadata_or_empty_def)
  then have k: "redis ?st (stream_key ''proj1'') \<noteq> None"
    by (auto simp: stream_of_def split: option.splits)
  have p: "primary_page env0 ?st ''proj1'' 10 0 None None = [?new]"
    unfolding primary_page_def s
    by (simp add: py_slice_def id_in_range_def bound_or_def str_truthy_def)
  have e: "for_each (format_entry env0 ''proj1'') (primary_page env0 ?st ''proj1'' 10 0 None None) =
      Inr [\<lparr>item_id = ''4-0'', item_project = ''proj1'',
              item_timestamp = ''2024-05-01T10:00:00'',
              item_data = JDict [(''k'', JStr ''v1'')], item_metadata = JDict []\<rparr>]"
    unfolding p
    by (simp add: format_entry_def dict_get_def str_truthy_def env0_def sample_loads_simps)
  from read_memory_primary [OF valid_project_proj1 f(2-4) k e] show ?thesis
    by (simp add: s)
qed

text \<open>A fourth record with metadata, read back as the last entry of the stream.\<close>

theorem write_then_read_round_trip_witness:
  "fst (read_memory (env0\<lparr>redis_fails := (\<lambda>c. False)\<rparr>)
          (snd (write_memory env0 world3 ''proj1''
                  \<lparr>wr_data = [(''k'', JStr ''v1'')],
                   wr_metadata = Some [(''tag'', JStr ''Alpha'')]\<rparr>))
          ''proj1'' 1 3 None None) =
     Inr \<lparr>pg_items =
            [\<lparr>item_id = ''4-0'', item_project = ''proj1'',
              item_timestamp = ''2024-05-01T10:00:00'',
              item_data = JDict [(''k'', JStr ''v1'')],
              item_metadata = JDict [(''tag'', JStr ''Alpha'')]\<rparr>],
          pg_total = 4, pg_limit = 1, pg_offset = 3\<rparr>"
proof -
  let ?req = "\<lparr>wr_data = [(''k'', JStr ''v1'')], wr_metadata = Some [(''tag'', JStr ''Alpha'')]\<rparr>"
  let ?st = "snd (write_memory env0 world3 ''proj1'' ?req)"
  let ?h = "env0\<lparr>redis_fails := (\<lambda>c. False)\<rparr>"
  let ?new = "(''4-0'', [(''data'', ''{\"k\": \"v1\"}''), (''metadata'', ''{\"tag\": \"Alpha\"}''),
                         (''timestamp'', ''2024-05-01T10:00:00'')])"
  let ?it = "\<lparr>item_id = ''4-0'', item_project = ''proj1'',
              item_timestamp = ''2024-05-01T10:00:00'',
              item_data = JDict [(''k'', JStr ''v1'')],
              item_metadata = JDict [(''tag'', JStr ''Alpha'')]\<rparr>"
  have f: "\<not> redis_fails env0 XADD" by (simp add: env0_def)
  have md: "metadata_or_empty (Some [(''tag'', JStr ''Alpha'')]) = [(''tag'', JStr ''Alpha'')]"
    by (simp add: metadata_or_empty_def dict_truthy_def)
  have s: "stream_of ?st (stream_key ''proj1'') = stream_of world3 (stream_key ''proj1'') @ [?new]"
    using write_memory_stores(1) [OF valid_project_proj1 f refl, of world3 ?req]
    by (simp add: env0_def md)
  have p: "primary_page ?h ?st ''proj1'' 1 3 None None = [?new]"
    unfolding primary_page_def s
    by (simp add: py_slice_def id_in_range_def bound_or_def str_truthy_def stream_of_def
          world3_def stream_key_def)
  have l1: "json_dumps env0 (JDict (metadata_or_empty (wr_metadata ?req))) \<noteq> []"
    by (simp add: env0_def md)
  have l2: "json_loads env0 (json_dumps env0 (JDict (wr_data ?req))) = Some (JDict (wr_data ?req))"
    by (simp add: env0_def sample_loads_simps)
  have l3: "json_loads env0 (json_dumps env0 (JDict (metadata_or_empty (wr_metadata ?req)))) =
           Some (JDict (metadata_or_empty (wr_metadata ?req)))"
    by (simp add: env0_def md sample_loads_simps)
  have c: "last (stream_of ?st (stream_key ''proj1'')) \<in> set (primary_page ?h ?st ''proj1'' 1 3 None None)"
    unfolding p by (simp add: s)
  have e: "for_each (format_entry ?h ''proj1'') (primary_page ?h ?st ''proj1'' 1 3 None None) =
             Inr [?it]"
    unfolding p
    by (simp add: format_entry_def dict_get_def str_truthy_def env0_def sample_loads_simps)
  from write_then_read_round_trip [OF valid_project_proj1 f refl refl l1 l2 l3 c e]
  show ?thesis by (simp add: stream_of_def world3_def stream_key_def)
qed


lemma format_row_written_null:
  assumes "json_loads envr data_s = Some d"
  shows "format_row envr project
           \<lparr>row_id = n, row_project = p, row_timestamp = t, row_data = data_s,
            row_metadata = None\<rparr> =
         Inr \<lparr>item_id = str_of_nat n, item_project = project, item_timestamp = t,
              item_data = d, item_metadata = JNull\<rparr>"
  using assms by (simp add: format_row_def str_truthy_def)

text \<open>
  C9. A write without metadata stores the serialized empty mapping in the metadata field
  of the stream entry and \<^verbatim>\<open>NULL\<close> in the metadata column of the row. Reading the record
  back gives the metadata \<^verbatim>\<open>{}\<close> in the primary branch (Redis answering) and \<^verbatim>\<open>null\<close> in the
  secondary branch (Redis raising, SQLite answering), for every page that holds the
  record and can be decoded.
\<close>

theorem write_without_metadata_read_back:
  assumes "valid_project project" and "wr_metadata request = None"
    and "\<not> redis_fails envw XADD"
    and "\<not> sqlite_fails envw CONNECT" and "\<not> sqlite_fails envw INSERT"
    and "st' = snd (write_memory envw st project request)"
    and "json_dumps envw (JDict []) \<noteq> []"
    and "json_loads envr (json_dumps envw (JDict [])) = Some (JDict [])"
    and "json_loads envr (json_dumps envw (JDict (wr_data request))) =
           Some (JDict (wr_data request))"
    and "primary = envr\<lparr>redis_fails := (\<lambda>c. False)\<rparr>"
    and "fallback = envr\<lparr>redis_fails := (\<lambda>c. True), sqlite_fails := (\<lambda>c. False)\<rparr>"
  shows "map_of (snd (last (stream_of st' (stream_key project)))) ''metadata'' =
           Some (json_dumps envw (JDict []))
       \<and> row_metadata (last (sqlite st')) = None
       \<and> (last (stream_of st' (stream_key project))
              \<in> set (primary_page primary st' project plim poff pstart pend)
            \<and> for_each (format_entry primary project)
                  (primary_page primary st' project plim poff pstart pend) = Inr pits \<longrightarrow>
            fst (read_memory primary st' project plim poff pstart pend) =
              Inr \<lparr>pg_items = pits,
                   pg_total = int (length (stream_of st' (stream_key project))),
                   pg_limit = plim, pg_offset = poff\<rparr>
            \<and> \<lparr>item_id = redis_new_id envw, item_project = project,
                item_timestamp = now envw, item_data = JDict (wr_data request),
                item_metadata = JDict []\<rparr> \<in> set pits)
       \<and> (last (sqlite st') \<in> set (secondary_page st' project slim soff sstart send)
            \<and> for_each (format_row fallback project)
                  (secondary_page st' project slim soff sstart send) = Inr sits \<longrightarrow>
            fst (read_memory fallback st' project slim soff sstart send) =
              Inr \<lparr>pg_items = sits,
                   pg_total = int (length (filter (read_where project sstart send) (sqlite st'))),
                   pg_limit = slim, pg_offset = soff\<rparr>
            \<and> \<lparr>item_id = str_of_nat (Suc (sqlite_seq st)), item_project = project,
                item_timestamp = now envw, item_data = JDict (wr_data request),
                item_metadata = JNull\<rparr> \<in> set sits)"
proof -
  let ?new = "(redis_new_id envw,
               [(''data'', json_dumps envw (JDict (wr_data request))),
                (''metadata'', json_dumps envw (JDict [])), (''timestamp'', now envw)])"
  let ?row = "\<lparr>row_id = Suc (sqlite_seq st), row_project = project, row_timestamp = now envw,
             row_data = json_dumps envw (JDict (wr_data request)), row_metadata = None\<rparr>"
  have md: "metadata_or_empty (wr_metadata request) = []"
    by (simp add: assms(2) metadata_or_empty_def)
  have s: "stream_of st' (stream_key project) = stream_of st (stream_key project) @ [?new]"
    using write_memory_stores(1) [OF assms(1,3,6)] by (simp add: md)
  have t: "sqlite st' = sqlite st @ [?row]"
    using write_memory_stores(2) [OF assms(1,3,6,4,5)] by (simp add: md dict_truthy_def)
  have k: "redis st' (stream_key project) \<noteq> None"
    using s by (auto simp: stream_of_def split: option.splits)
  have a: "map_of (snd (last (stream_of st' (stream_key project)))) ''metadata'' =
           Some (json_dumps envw (JDict []))"
    by (simp add: s)
  have b: "row_metadata (last (sqlite st')) = None"
    by (simp add: t)
  have fe: "format_entry primary project ?new =
         Inr \<lparr>item_id = redis_new_id envw, item_project = project, item_timestamp = now envw,
              item_data = JDict (wr_data request), item_metadata = JDict []\<rparr>"
    by (rule format_entry_written) (simp_all add: assms(7-10))
  have fr: "format_row fallback project ?row =
         Inr \<lparr>item_id = str_of_nat (Suc (sqlite_seq st)), item_project = project,
              item_timestamp = now envw, item_data = JDict (wr_data request),
              item_metadata = JNull\<rparr>"
    by (rule format_row_written_null) (simp add: assms(9,11))
  have c: "fst (read_memory primary st' project plim poff pstart pend) =
              Inr \<lparr>pg_items = pits,
                   pg_total = int (length (stream_of st' (stream_key project))),
                   pg_limit = plim, pg_offset = poff\<rparr>
            \<and> \<lparr>item_id = redis_new_id envw, item_project = project,
                item_timestamp = now envw, item_data = JDict (wr_data request),
                item_metadata = JDict []\<rparr> \<in> set pits"
    if m: "last (stream_of st' (stream_key project))
              \<in> set (primary_page primary st' project plim poff pstart pend)"
      and p: "for_each (format_entry primary project)
                  (primary_page primary st' project plim poff pstart pend) = Inr pits"
  proof -
    have h: "\<not> redis_fails primary EXISTS" "\<not> redis_fails primary XLEN"
      "\<not> redis_fails primary XRANGE"
      by (simp_all add: assms(10))
    have "?new \<in> set (primary_page primary st' project plim poff pstart pend)"
      using m by (simp add: s)
    from for_each_member [of "format_entry primary project" _ pits, OF p this fe]
      read_memory_primary [OF assms(1) h k p]
    show ?thesis by simp
  qed
  have d: "fst (read_memory fallback st' project slim soff sstart send) =
              Inr \<lparr>pg_items = sits,
                   pg_total = int (length (filter (read_where project sstart send) (sqlite st'))),
                   pg_limit = slim, pg_offset = soff\<rparr>
            \<and> \<lparr>item_id = str_of_nat (Suc (sqlite_seq st)), item_project = project,
                item_timestamp = now envw, item_data = JDict (wr_data request),
                item_metadata = JNull\<rparr> \<in> set sits"
    if m: "last (sqlite st') \<in> set (secondary_page st' project slim soff sstart send)"
      and p: "for_each (format_row fallback project)
                  (secondary_page st' project slim soff sstart send) = Inr sits"
  proof -
    have h: "redis_fails fallback EXISTS" "\<not> sqlite_fails fallback CONNECT"
      "\<not> sqlite_fails fallback SELECT" "\<not> sqlite_fails fallback COUNT"
      by (simp_all add: assms(11))
    have "?row \<in> set (secondary_page st' project slim soff sstart send)"
      using m by (simp add: t)
    from for_each_member [of "format_row fallback project" _ sits, OF p this fr]
      read_memory_fallback [OF assms(1) h p]
    show ?thesis by simp
  qed
  from a b c d show ?thesis by blast
qed

text \<open>The fourth record written without metadata, read back through both branches.\<close>

theorem write_without_metadata_read_back_witness:
  "fst (read_memory (env0\<lparr>redis_fails := (\<lambda>c. False)\<rparr>)
          (snd (write_memory env0 world3 ''proj1''
                  \<lparr>wr_data = [(''k'', JStr ''v1'')], wr_metadata = None\<rparr>))
          ''proj1'' 1 3 None None) =
     Inr \<lparr>pg_items =
            [\<lparr>item_id = ''4-0'', item_project = ''proj1'',
              item_timestamp = ''2024-05-01T10:00:00'',
              item_data = JDict [(''k'', JStr ''v1'')], item_metadata = JDict []\<rparr>],
          pg_total = 4, pg_limit = 1, pg_offset = 3\<rparr>
   \<and> fst (read_memory (env0\<lparr>redis_fails := (\<lambda>c. True), sqlite_fails := (\<lambda>c. False)\<rparr>)
          (snd (write_memory env0 world3 ''proj1''
                  \<lparr>wr_data = [(''k'', JStr ''v1'')], wr_metadata = None\<rparr>))
          ''proj1'' 1 0 None None) =
     Inr \<lparr>pg_items =
            [\<lparr>item_id = ''4'', item_project = ''proj1'',
              item_timestamp = ''2024-05-01T10:00:00'',
              item_data = JDict [(''k'', JStr ''v1'')], item_metadata = JNull\<rparr>],
          pg_total = 4, pg_limit = 1, pg_offset = 0\<rparr>"
proof -
  let ?req = "\<lparr>wr_data = [(''k'', JStr ''v1'')], wr_metadata = None\<rparr>"
  let ?st = "snd (write_memory env0 world3 ''proj1'' ?req)"
  let ?p = "env0\<lparr>redis_fails := (\<lambda>c. False)\<rparr>"
  let ?f = "env0\<lparr>redis_fails := (\<lambda>c. True), sqlite_fails := (\<lambda>c. False)\<rparr>"
  let ?new = "(''4-0'', [(''data'', ''{\"k\": \"v1\"}''), (''metadata'', ''{}''),
                         (''timestamp'', ''2024-05-01T10:00:00'')])"
  let ?row = "\<lparr>row_id = 4, row_project = ''proj1'', row_timestamp = ''2024-05-01T10:00:00'',
             row_data = ''{\"k\": \"v1\"}'', row_metadata = None\<rparr>"
  let ?it1 = "\<lparr>item_id = ''4-0'', item_project = ''proj1'',
              item_timestamp = ''2024-05-01T10:00:00'',
              item_data = JDict [(''k'', JStr ''v1'')], item_metadata = JDict []\<rparr>"
  let ?it2 = "\<lparr>item_id = ''4'', item_project = ''proj1'',
              item_timestamp = ''2024-05-01T10:00:00'',
              item_data = JDict [(''k'', JStr ''v1'')], item_metadata = JNull\<rparr>"
  have f: "\<not> redis_fails env0 XADD" "\<not> sqlite_fails env0 CONNECT" "\<not> sqlite_fails env0 INSERT"
    by (simp_all add: env0_def)
  have n: "wr_metadata ?req = None" by simp
  have md: "metadata_or_empty None = []" by (simp add: metadata_or_empty_def)
  have s: "stream_of ?st (stream_key ''proj1'') = stream_of world3 (stream_key ''proj1'') @ [?new]"
    using write_memory_stores(1) [OF valid_project_proj1 f(1) refl, of world3 ?req]
    by (simp add: env0_def md)
  have t: "sqlite ?st = sqlite world3 @ [?row]"
    using write_memory_stores(2) [OF valid_project_proj1 f(1) refl f(2,3), of world3 ?req]
    by (simp add: env0_def md dict_truthy_def world3_def)
  have p1: "primary_page ?p ?st ''proj1'' 1 3 None None = [?new]"
    unfolding primary_page_def s
    by (simp add: py_slice_def id_in_range_def bound_or_def str_truthy_def stream_of_def
          world3_def stream_key_def)
  have p2: "secondary_page ?st ''proj1'' 1 0 None None = [?row]"
    unfolding secondary_page_def t
    by (simp add: sql_limit_offset_def order_by_timestamp_desc_def read_where_def
          str_truthy_def world3_def)
  have l: "json_dumps env0 (JDict []) \<noteq> []"
    "json_loads env0 (json_dumps env0 (JDict [])) = Some (JDict [])"
    "json_loads env0 (json_dumps env0 (JDict (wr_data ?req))) = Some (JDict (wr_data ?req))"
    by (simp_all add: env0_def sample_loads_simps)
  have ls: "last (stream_of ?st (stream_key ''proj1'')) = ?new" by (simp add: s)
  have lr: "last (sqlite ?st) = ?row" by (simp add: t)
  have fe: "for_each (format_entry ?p ''proj1'') [?new] = Inr [?it1]"
    by (simp add: format_entry_def dict_get_def str_truthy_def env0_def sample_loads_simps)
  have fr: "for_each (format_row ?f ''proj1'') [?row] = Inr [?it2]"
    by (simp add: format_row_def str_truthy_def env0_def sample_loads_simps
          str_of_nat_samples)
  have c1: "last (stream_of ?st (stream_key ''proj1''))
              \<in> set (primary_page ?p ?st ''proj1'' 1 3 None None)
            \<and> for_each (format_entry ?p ''proj1'')
                  (primary_page ?p ?st ''proj1'' 1 3 None None) = Inr [?it1]"
    unfolding p1 ls using fe by simp
  have c2: "last (sqlite ?st) \<in> set (secondary_page ?st ''proj1'' 1 0 None None)
            \<and> for_each (format_row ?f ''proj1'')
                  (secondary_page ?st ''proj1'' 1 0 None None) = Inr [?it2]"
    unfolding p2 lr using fr by simp
  have len: "int (length (stream_of ?st (stream_key ''proj1''))) = 4"
    "int (length (filter (read_where ''proj1'' None None) (sqlite ?st))) = 4"
    unfolding s t
    by (simp_all add: stream_of_def world3_def stream_key_def read_where_def str_truthy_def)
  from write_without_metadata_read_back [OF valid_project_proj1 n f refl l refl refl,
      where plim = 1 and poff = 3 and pstart = None and pend = None and pits = "[?it1]"
        and slim = 1 and soff = 0 and sstart = None and send = None and sits = "[?it2]"]
    c1 c2 len
  show ?thesis by simp
qed

subsection \<open>query\_memory\<close>














subsection \<open>purge\_memory\<close>

lemma purge_body_invalid:
  "\<not> valid_project project \<Longrightarrow>
   purge_body env st project confirm = (Inl (HTTPException 400 ''Invalid project ID''), st)"
  by (simp add: purge_body_def)

lemma purge_body_unconfirmed:
  "valid_project project \<Longrightarrow>
   purge_body env st project False = (Inl (HTTPException 400 ''Confirmation required''), st)"
  by (simp add: purge_body_def)

text \<open>
  C7, as stated, fails: the two deletions are not independent. When the deletion of the
  stream key raises, the table is never touched (no SQLite command is sent, the three rows
  stay) and the response is one error, not a report per store.
\<close>

theorem purge_memory_primary_failure_counterexample:
  "fst (purge_memory (env0\<lparr>redis_fails := (\<lambda>c. c = DEL)\<rparr>) world3 ''proj1'' True) =
     Inl (HTTPException 500 ''Memory purge error'')
   \<and> sqlite (snd (purge_memory (env0\<lparr>redis_fails := (\<lambda>c. c = DEL)\<rparr>) world3 ''proj1'' True)) =
       sqlite world3
   \<and> length (sqlite world3) = 3
   \<and> trace (snd (purge_memory (env0\<lparr>redis_fails := (\<lambda>c. c = DEL)\<rparr>) world3 ''proj1'' True)) =
       [Redis DEL ''project:proj1'']"
  using valid_project_proj1
  by (simp add: purge_memory_def purge_body_def redis_delete_def emit_def Let_def env0_def
        world3_def stream_key_def)

text \<open>
  C7, amended. With a valid project and \<open>confirm = True\<close>, \<open>purge_memory\<close> deletes the
  stream key first and the rows of the project second. If the first deletion raises, the
  purge error is returned and neither store has changed. If it succeeds and SQLite raises,
  the internal error is returned, the key is gone and the table is unchanged. If neither
  raises, the response reports each store on its own: whether the key existed, and the
  number of rows deleted.
\<close>

theorem purge_memory_sequential:
  assumes "valid_project project"
  shows "(redis_fails env DEL \<longrightarrow>
            purge_memory env st project True =
              (Inl (HTTPException 500 ''Memory purge error''),
               st\<lparr>trace := trace st @ [Redis DEL (stream_key project)]\<rparr>))
       \<and> (\<not> redis_fails env DEL \<and> (sqlite_fails env CONNECT \<or> sqlite_fails env DELETE) \<longrightarrow>
            fst (purge_memory env st project True) =
              Inl (HTTPException 500 ''Internal server error'')
            \<and> redis (snd (purge_memory env st project True)) =
                (redis st)(stream_key project := None)
            \<and> sqlite (snd (purge_memory env st project True)) = sqlite st)
       \<and> (\<not> redis_fails env DEL \<and> \<not> sqlite_fails env CONNECT \<and> \<not> sqlite_fails env DELETE \<longrightarrow>
            fst (purge_memory env st project True) =
              Inr \<lparr>p_status = ''success'', p_project = project,
                   redis_deleted = (redis st (stream_key project) \<noteq> None),
                   sqlite_deleted = length (filter (\<lambda>r. row_project r = project) (sqlite st)),
                   p_timestamp = now env\<rparr>
            \<and> redis (snd (purge_memory env st project True)) =
                (redis st)(stream_key project := None)
            \<and> sqlite (snd (purge_memory env st project True)) =
                filter (\<lambda>r. row_project r \<noteq> project) (sqlite st))"
  using assms
  by (auto simp: purge_memory_def purge_body_def store_defs)

text \<open>Both stores healthy, and then \<^verbatim>\<open>DELETE\<close> failing after the key was deleted.\<close>

theorem purge_memory_sequential_witness:
  "fst (purge_memory env0 world3 ''proj1'' True) =
     Inr \<lparr>p_status = ''success'', p_project = ''proj1'', redis_deleted = True,
          sqlite_deleted = 3, p_timestamp = ''2024-05-01T10:00:00''\<rparr>
   \<and> fst (purge_memory (env0\<lparr>sqlite_fails := (\<lambda>c. c = DELETE)\<rparr>) world3 ''proj1'' True) =
       Inl (HTTPException 500 ''Internal server error'')
   \<and> redis (snd (purge_memory (env0\<lparr>sqlite_fails := (\<lambda>c. c = DELETE)\<rparr>) world3 ''proj1'' True))
        ''project:proj1'' = None
   \<and> length (sqlite (snd (purge_memory (env0\<lparr>sqlite_fails := (\<lambda>c. c = DELETE)\<rparr>) world3
        ''proj1'' True))) = 3"
proof -
  have a: "\<not> redis_fails env0 DEL \<and> \<not> sqlite_fails env0 CONNECT \<and> \<not> sqlite_fails env0 DELETE"
    by (simp add: env0_def)
  have b: "\<not> redis_fails (env0\<lparr>sqlite_fails := (\<lambda>c. c = DELETE)\<rparr>) DEL
           \<and> (sqlite_fails (env0\<lparr>sqlite_fails := (\<lambda>c. c = DELETE)\<rparr>) CONNECT
              \<or> sqlite_fails (env0\<lparr>sqlite_fails := (\<lambda>c. c = DELETE)\<rparr>) DELETE)"
    by (simp add: env0_def)
  have w: "redis world3 (stream_key ''proj1'') \<noteq> None"
      "length (filter (\<lambda>r. row_project r = ''proj1'') (sqlite world3)) = 3"
      "length (sqlite world3) = 3" "stream_key ''proj1'' = ''project:proj1''"
      "now env0 = ''2024-05-01T10:00:00''"
    by (simp_all add: world3_def stream_key_def env0_def)
  from purge_memory_sequential [OF valid_project_proj1, of env0 world3]
       purge_memory_sequential [OF valid_project_proj1,
         of "env0\<lparr>sqlite_fails := (\<lambda>c. c = DELETE)\<rparr>" world3] a b w
  show ?thesis by simp
qed

text \<open>
  C8. For a valid project and \<open>confirm = False\<close> no store is touched, but the caller does
  not see the confirmation error: the \<open>HTTPException\<close> with status 400 raised in the body
  is caught by the handler's own \<^verbatim>\<open>except Exception\<close> and replaced by the internal error
  with status 500.
\<close>

theorem purge_memory_unconfirmed_is_internal_error:
  assumes "valid_project project"
  shows "purge_body env st project False =
           (Inl (HTTPException 400 ''Confirmation required''), st)
       \<and> purge_memory env st project False =
           (Inl (HTTPException 500 ''Internal server error''), st)"
  by (simp add: purge_memory_def purge_body_unconfirmed [OF assms])

theorem purge_memory_unconfirmed_is_internal_error_witness:
  "purge_memory env0 world3 ''proj1'' False =
     (Inl (HTTPException 500 ''Internal server error''), world3)"
  using purge_memory_unconfirmed_is_internal_error [OF valid_project_proj1, of env0 world3]
  by simp

text \<open>
  C10. The validation comes before the confirmation check: for an identifier that is empty
  or holds a character that is not alphanumeric, the body raises the \<open>HTTPException\<close> for
  the project id whatever \<open>confirm\<close> is, and no store is touched. The caller does not see
  it: the same \<^verbatim>\<open>except Exception\<close> replaces it by the internal error with status 500.
\<close>

theorem purge_memory_invalid_is_internal_error:
  assumes "\<not> valid_project project"
  shows "purge_body env st project confirm =
           (Inl (HTTPException 400 ''Invalid project ID''), st)
       \<and> purge_memory env st project confirm =
           (Inl (HTTPException 500 ''Internal server error''), st)"
  by (simp add: purge_memory_def purge_body_invalid [OF assms])

theorem purge_memory_invalid_is_internal_error_witness:
  "purge_memory env0 world3 ''my-project'' False =
     (Inl (HTTPException 500 ''Internal server error''), world3)
   \<and> purge_body env0 world3 ''my-project'' False =
     (Inl (HTTPException 400 ''Invalid project ID''), world3)
   \<and> purge_memory env0 world3 ''my-project'' True =
     (Inl (HTTPException 500 ''Internal server error''), world3)"
proof -
  have "\<not> valid_project ''my-project''"
    by (simp add: valid_project_def isalnum_def isalnum_char_def)
  from purge_memory_invalid_is_internal_error [OF this, of env0 world3 False]
       purge_memory_invalid_is_internal_error [OF this, of env0 world3 True]
  show ?thesis by simp
qed

end
